theory Spec2Isabelle
  imports Main "HOL-Library.Sublist"
begin

text \<open>
  A shallow embedding of the request pipeline of the server: the input sanitizer, the
  request normalizer, the injection heuristic and the data access layer, the router, the
  response builder, the dispatcher, and the session and report controllers.  Each
  definition follows the JavaScript function of the same name; a leading underscore of a
  source name is dropped (\<open>_stripHtmlTags\<close> is \<open>stripHtmlTags\<close>), and a name that
  Isabelle reserves gets a prefix.  An exception is a value: a function that can raise
  returns \<open>error + 'a\<close>.  Mutation is state passing: a method that changes its object
  returns the changed object.  What the code takes from its runtime (the store driver,
  the date parser, the random bytes, the parsers of request bodies, the members inherited
  from built-in prototypes) is a parameter of the functions that use it.
\<close>

section \<open>JavaScript values\<close>

text \<open>
  The values the request pipeline handles: what \<open>JSON.parse\<close>, \<open>querystring.parse\<close>,
  \<open>Object.fromEntries\<close> and the router produce, plus function values (a function is
  represented by its source text, which is what \<open>String(f)\<close> yields; a method of the
  repository's classes, whose text is never read, by its name).  Strings are
  sequences of code units; numbers are the integer-valued ones of magnitude below ten to
  the power 21 (the ones that \<open>String\<close> prints in full, without exponent) and
  \<open>NaN\<close>, which is all the modelled functions distinguish (they test numbers for
  truthiness or print them).  An object is the association list of its own properties,
  each key once, in the order in which the language enumerates them; what it inherits
  from its prototype is given apart (section Property access).
\<close>

datatype jsval =
    JUndefined
  | JNull
  | JBool bool
  | JNum int
  | JNaN
  | JStr string
  | JArr "jsval list"
  | JObj "(string \<times> jsval) list"
  | JFun string

text \<open>
  Errors: the engine's \<open>TypeError\<close>, a \<open>ReferenceError\<close> with its message, a plain
  \<open>Error\<close> with its message, an \<open>ApiException\<close> with its class name, status code
  and message, and the \<open>SyntaxError\<close> of a regular expression with its message.
\<close>

datatype error =
    TypeError
  | ReferenceError string
  | PlainError string
  | ApiException string int string
  | SyntaxError string

text \<open>\<open>typeof value\<close>.\<close>

fun typeof :: "jsval \<Rightarrow> string" where
  "typeof JUndefined = ''undefined''"
| "typeof JNull = ''object''"
| "typeof (JBool b) = ''boolean''"
| "typeof (JNum n) = ''number''"
| "typeof JNaN = ''number''"
| "typeof (JStr s) = ''string''"
| "typeof (JArr xs) = ''object''"
| "typeof (JObj kvs) = ''object''"
| "typeof (JFun src) = ''function''"

text \<open>Truthiness: \<open>!!value\<close>.\<close>

fun truthy :: "jsval \<Rightarrow> bool" where
  "truthy JUndefined = False"
| "truthy JNull = False"
| "truthy (JBool b) = b"
| "truthy (JNum n) = (n \<noteq> 0)"
| "truthy JNaN = False"
| "truthy (JStr s) = (s \<noteq> [])"
| "truthy (JArr xs) = True"
| "truthy (JObj kvs) = True"
| "truthy (JFun src) = True"

text \<open>Decimal printing of an integer-valued number: what \<open>String\<close> gives for a
  magnitude below ten to the power 21, the range of \<open>JNum\<close>.\<close>

fun show_nat :: "nat \<Rightarrow> string" where
  "show_nat n =
     (if n < 10 then [''0123456789'' ! n]
      else show_nat (n div 10) @ [''0123456789'' ! (n mod 10)])"

declare show_nat.simps [simp del]

definition show_int :: "int \<Rightarrow> string" where
  "show_int i = (if i < 0 then CHR ''-'' # show_nat (nat (- i)) else show_nat (nat i))"

fun intercalate :: "string \<Rightarrow> string list \<Rightarrow> string" where
  "intercalate sep [] = []"
| "intercalate sep [x] = x"
| "intercalate sep (x # y # ys) = x @ sep @ intercalate sep (y # ys)"

text \<open>\<open>String(value)\<close>; an array joins its elements with commas, printing
  \<open>null\<close> and \<open>undefined\<close> elements as the empty string.\<close>

fun js_String :: "jsval \<Rightarrow> string" where
  "js_String JUndefined = ''undefined''"
| "js_String JNull = ''null''"
| "js_String (JBool b) = (if b then ''true'' else ''false'')"
| "js_String (JNum n) = show_int n"
| "js_String JNaN = ''NaN''"
| "js_String (JStr s) = s"
| "js_String (JArr xs) =
     intercalate '',''
       (map (\<lambda>x. if x = JUndefined \<or> x = JNull then [] else js_String x) xs)"
| "js_String (JObj kvs) = ''[object Object]''"
| "js_String (JFun src) = src"

section \<open>String primitives\<close>

definition is_digit :: "char \<Rightarrow> bool" where
  "is_digit c = (let n = (of_char c :: nat) in 48 \<le> n \<and> n \<le> 57)"

text \<open>White space and line terminators among the code units below 256: tab, line feed,
  vertical tab, form feed, carriage return, space and no-break space.  This is the class
  \<open>\s\<close> of regular expressions and what \<open>String.prototype.trim\<close> removes.\<close>

definition is_space :: "char \<Rightarrow> bool" where
  "is_space c = (c \<in> set [CHR 0x09, CHR 0x0A, CHR 0x0B, CHR 0x0C, CHR 0x0D, CHR 0x20, CHR 0xA0])"

definition js_trim :: "string \<Rightarrow> string" where
  "js_trim s = rev (dropWhile is_space (rev (dropWhile is_space s)))"

text \<open>\<open>s.replace(/c/g, r)\<close> for a one-character pattern and a replacement text without
  \<open>$\<close>.\<close>

definition replace_all :: "char \<Rightarrow> string \<Rightarrow> string \<Rightarrow> string" where
  "replace_all c r s = concat (map (\<lambda>x. if x = c then r else [x]) s)"

section \<open>InputSanitizer\<close>

record options =
  opt_trim :: bool
  opt_allowHtml :: bool
  opt_maxLength :: "nat option"
  opt_default :: jsval

text \<open>
  The options object as the sanitizers read it: \<open>opt_trim\<close> is false exactly when
  \<open>options.trim === false\<close>, \<open>opt_allowHtml\<close> is the truthiness of
  \<open>options.allowHtml\<close>, \<open>opt_maxLength\<close> is the numeric \<open>options.maxLength\<close> when
  one is given and \<open>opt_default\<close> is \<open>options.default\<close>.  The empty object \<open>{}\<close>:
\<close>

definition no_options :: options where
  "no_options =
     \<lparr>opt_trim = True, opt_allowHtml = False, opt_maxLength = None, opt_default = JUndefined\<rparr>"

text \<open>
  \<open>_stripHtmlTags\<close>: \<open>value.replace(/<[^>]*>/g, '')\<close>.  Scanning from the left, a
  \<open><\<close> with a \<open>>\<close> somewhere after it starts a match that runs to the first such
  \<open>>\<close> (the class \<open>[^>]\<close> cannot cross one); the match is deleted and the scan goes on
  behind it.  A \<open><\<close> with no \<open>>\<close> behind it matches nothing and stays.
\<close>

function stripHtmlTags :: "string \<Rightarrow> string" where
  "stripHtmlTags [] = []"
| "stripHtmlTags (c # cs) =
     (if c = CHR ''<'' \<and> CHR ''>'' \<in> set cs
      then stripHtmlTags (tl (dropWhile (\<lambda>x. x \<noteq> CHR ''>'') cs))
      else c # stripHtmlTags cs)"
  by pat_completeness auto
termination
proof (relation "measure length")
  fix c :: char and cs :: string
  have "length (dropWhile (\<lambda>x. x \<noteq> CHR ''>'') cs) \<le> length cs"
    by (rule length_dropWhile_le)
  then show "(tl (dropWhile (\<lambda>x. x \<noteq> CHR ''>'') cs), c # cs) \<in> measure length"
    by simp
qed simp_all

definition sanitizeString :: "jsval \<Rightarrow> options \<Rightarrow> string" where
  "sanitizeString v opts =
     (if v = JNull \<or> v = JUndefined then []
      else
        let s0 = js_String v;
            s1 = (if opt_trim opts then js_trim s0 else s0);
            s2 = (if \<not> opt_allowHtml opts then stripHtmlTags s1 else s1);
            s3 = filter (\<lambda>c. c \<noteq> CHR 0x00) s2
        in case opt_maxLength opts of
             None \<Rightarrow> s3
           | Some n \<Rightarrow> if n \<noteq> 0 \<and> length s3 > n then take n s3 else s3)"

text \<open>\<open>value.toLowerCase()\<close> on code units below 256: the letters A to Z and the
  Latin-1 capitals (0xC0 to 0xDE without the multiplication sign 0xD7) move up by 32.\<close>

definition lower_char :: "char \<Rightarrow> char" where
  "lower_char c =
     (let n = (of_char c :: nat)
      in if (65 \<le> n \<and> n \<le> 90) \<or> (192 \<le> n \<and> n \<le> 222 \<and> n \<noteq> 215)
         then char_of (n + 32) else c)"

definition toLowerCase :: "string \<Rightarrow> string" where
  "toLowerCase s = map lower_char s"

definition sanitizeBoolean :: "jsval \<Rightarrow> options \<Rightarrow> jsval" where
  "sanitizeBoolean v opts =
     (if v = JNull \<or> v = JUndefined
      then (if truthy (opt_default opts) then opt_default opts else JNull)
      else if typeof v = ''boolean'' then JBool True
      else if typeof v = ''string''
      then JBool (toLowerCase (js_String v) \<in> set [''true'', ''1'', ''yes''])
      else JBool (truthy v))"

text \<open>
  The claim on \<open>sanitizeString\<close> is proved through an invariant of its output: no
  \<open><\<close> is followed, anywhere later, by a \<open>>\<close>.
\<close>

fun tagfree :: "string \<Rightarrow> bool" where
  "tagfree [] = True"
| "tagfree (c # cs) = ((c = CHR ''<'' \<longrightarrow> CHR ''>'' \<notin> set cs) \<and> tagfree cs)"

text \<open>
  \<open>InputSanitizer.sanitize\<close> dispatches on the lower-cased type name.  The string and
  boolean sanitizers are modelled above; the numeric, email, URL, object, array and
  password sanitizers are taken as the parameter \<open>others\<close>, applied to the lower-cased
  type name.  An unknown type name returns the value unchanged.
\<close>

definition InputSanitizer_sanitize ::
  "(string \<Rightarrow> jsval \<Rightarrow> options \<Rightarrow> jsval) \<Rightarrow> jsval \<Rightarrow> string \<Rightarrow> options \<Rightarrow> jsval" where
  "InputSanitizer_sanitize others v ty opts =
     (let t = toLowerCase ty
      in if t = ''string'' then JStr (sanitizeString v opts)
         else if t = ''int'' \<or> t = ''integer'' then others t v opts
         else if t = ''number'' \<or> t = ''float'' then others t v opts
         else if t = ''bool'' \<or> t = ''boolean'' then sanitizeBoolean v opts
         else if t = ''email'' \<or> t = ''url'' \<or> t = ''object'' \<or> t = ''array''
                 \<or> t = ''password'' then others t v opts
         else v)"

section \<open>Property access\<close>

text \<open>
  Own properties: the entries of an object, the indices and \<open>length\<close> of an array or a
  string.  An array index is a decimal numeral in canonical form: digits only, and no
  leading zero except for \<open>0\<close> itself.
\<close>

definition digit_val :: "char \<Rightarrow> nat" where
  "digit_val c = of_char c - 48"

definition parse_nat :: "string \<Rightarrow> nat" where
  "parse_nat s = foldl (\<lambda>a c. 10 * a + digit_val c) 0 s"

definition array_index :: "string \<Rightarrow> nat option" where
  "array_index s =
     (if s \<noteq> [] \<and> list_all is_digit s \<and> (hd s \<noteq> CHR ''0'' \<or> s = ''0'')
      then Some (parse_nat s) else None)"

fun own_property :: "jsval \<Rightarrow> string \<Rightarrow> jsval option" where
  "own_property (JObj kvs) key = map_of kvs key"
| "own_property (JArr xs) key =
     (if key = ''length'' then Some (JNum (int (length xs)))
      else case array_index key of
             Some i \<Rightarrow> if i < length xs then Some (xs ! i) else None
           | None \<Rightarrow> None)"
| "own_property (JStr s) key =
     (if key = ''length'' then Some (JNum (int (length s)))
      else case array_index key of
             Some i \<Rightarrow> if i < length s then Some (JStr [s ! i]) else None
           | None \<Rightarrow> None)"
| "own_property v key = None"

text \<open>
  What a value inherits from the built-in prototypes is a parameter of the model: a
  function from the receiver and the key to the inherited member, \<open>JUndefined\<close> when
  there is none.  \<open>obj[key]\<close> raises a \<open>TypeError\<close> on \<open>null\<close> and
  \<open>undefined\<close>, returns the own property when there is one and the inherited member
  otherwise.
\<close>

type_synonym proto = "jsval \<Rightarrow> string \<Rightarrow> jsval"

definition js_get :: "proto \<Rightarrow> jsval \<Rightarrow> string \<Rightarrow> error + jsval" where
  "js_get P obj key =
     (if obj = JNull \<or> obj = JUndefined then Inl TypeError
      else case own_property obj key of
             Some v \<Rightarrow> Inr v
           | None \<Rightarrow> Inr (P obj key))"

text \<open>
  \<open>obj.hasOwnProperty(key)\<close> first reads the member \<open>hasOwnProperty\<close> of the
  receiver.  When that is the built-in of \<open>Object.prototype\<close> the call tests for an own
  property.  When an own property of that name shadows it, or the receiver inherits
  nothing (an object without prototype), the member is not callable and the call raises a
  \<open>TypeError\<close>.
\<close>

definition builtin_hasOwnProperty :: jsval where
  "builtin_hasOwnProperty = JFun ''function hasOwnProperty() { [native code] }''"

definition hasOwnProperty :: "proto \<Rightarrow> jsval \<Rightarrow> string \<Rightarrow> error + bool" where
  "hasOwnProperty P obj key =
     (case js_get P obj ''hasOwnProperty'' of
        Inl e \<Rightarrow> Inl e
      | Inr f \<Rightarrow>
          if f = builtin_hasOwnProperty then Inr (own_property obj key \<noteq> None)
          else Inl TypeError)"

text \<open>
  The prototype of ordinary objects: the standard function members of
  \<open>Object.prototype\<close>, and \<open>__proto__\<close>, which answers with the prototype, an object
  without enumerable properties.
\<close>

definition Object_prototype_functions :: "string list" where
  "Object_prototype_functions =
     [''__defineGetter__'', ''__defineSetter__'', ''__lookupGetter__'', ''__lookupSetter__'',
      ''isPrototypeOf'', ''propertyIsEnumerable'', ''toString'', ''valueOf'', ''toLocaleString'']"

definition Object_prototype :: proto where
  "Object_prototype obj key =
     (if key = ''hasOwnProperty'' then builtin_hasOwnProperty
      else if key = ''constructor'' then JFun ''function Object() { [native code] }''
      else if key \<in> set Object_prototype_functions
      then JFun (''function '' @ key @ ''() { [native code] }'')
      else if key = ''__proto__'' then JObj []
      else JUndefined)"

text \<open>
  The own properties of an ordinary object are enumerated with the array indices below
  \<open>4294967295\<close> first, in ascending order, and the other keys after them in the order
  of their creation.  \<open>put_property\<close> writes an own property: in place when the key is
  there, at its place in that order when it is new.
\<close>

definition property_index :: "string \<Rightarrow> nat option" where
  "property_index k =
     (case array_index k of
        Some n \<Rightarrow> if n < 4294967295 then Some n else None
      | None \<Rightarrow> None)"

definition precedes :: "string \<Rightarrow> string \<Rightarrow> bool" where
  "precedes k k' =
     (case property_index k of
        None \<Rightarrow> False
      | Some n \<Rightarrow> (case property_index k' of None \<Rightarrow> True | Some n' \<Rightarrow> n < n'))"

fun put_property :: "(string \<times> 'v) list \<Rightarrow> string \<Rightarrow> 'v \<Rightarrow> (string \<times> 'v) list" where
  "put_property [] k v = [(k, v)]"
| "put_property ((k', v') # rest) k v =
     (if k' = k then (k', v) # rest
      else if precedes k k' \<and> k \<notin> fst ` set rest then (k, v) # (k', v') # rest
      else (k', v') # put_property rest k v)"

text \<open>
  The assignment \<open>obj[k] = v\<close> on an ordinary object, for a value that is a string, a
  number, a boolean or \<open>undefined\<close>.  Under the key \<open>__proto__\<close>, unless the object
  has an own property of that name, the assignment goes to the accessor that the object
  inherits from \<open>Object.prototype\<close>, and the accessor ignores such a value: the object
  stays as it was.  (A value that is an object or \<open>null\<close> would become the prototype.)
  Under every other key the assignment writes the own property.
\<close>

definition assign :: "(string \<times> 'v) list \<Rightarrow> string \<Rightarrow> 'v \<Rightarrow> (string \<times> 'v) list" where
  "assign obj k v =
     (if k = ''__proto__'' \<and> map_of obj k = None then obj else put_property obj k v)"

section \<open>Request\<close>

record request =
  rq_method :: string
  rq_query :: "(string \<times> jsval) list"
  rq_params :: "(string \<times> jsval) list"
  rq_body :: jsval

text \<open>
  \<open>Request.sanitize\<close>: arrays elementwise, objects property by property, strings by
  three replacements in sequence (single quote doubled, backslash doubled, null byte to
  backslash and zero) and a final trim; anything else unchanged.  For an object the loop
  assigns each sanitized value to a new object under the same key,
  \<open>sanitized[key] = this.sanitize(value[key])\<close>.  Under the key \<open>__proto__\<close> that
  assignment creates no property (it goes to the accessor of \<open>Object.prototype\<close>), so
  an own property of that name is not among the properties of the result.  When its
  sanitized value is an object, an array or \<open>null\<close>, the accessor makes that value the
  prototype of the result; the values here do not record a prototype, and
  \<open>proto_ignored\<close> below describes the values for which the result is exact.
\<close>

fun sanitize :: "jsval \<Rightarrow> jsval" where
  "sanitize (JArr xs) = JArr (map sanitize xs)"
| "sanitize (JObj kvs) =
     JObj (map (\<lambda>(k, v). (k, sanitize v)) (filter (\<lambda>(k, v). k \<noteq> ''__proto__'') kvs))"
| "sanitize (JStr s) =
     JStr (js_trim
       (replace_all (CHR 0x00) [CHR 0x5C, CHR ''0'']
         (replace_all (CHR 0x5C) [CHR 0x5C, CHR 0x5C]
           (replace_all (CHR 0x27) [CHR 0x27, CHR 0x27] s))))"
| "sanitize v = v"



definition input :: "proto \<Rightarrow> request \<Rightarrow> string \<Rightarrow> jsval \<Rightarrow> string \<Rightarrow> error + jsval" where
  "input P rq key defaultValue source =
     (case (if source = ''query'' then js_get P (JObj (rq_query rq)) key
            else if source = ''params'' then js_get P (JObj (rq_params rq)) key
            else js_get P (rq_body rq) key) of
        Inl e \<Rightarrow> Inl e
      | Inr v \<Rightarrow>
          if v = JUndefined \<or> v = JNull then Inr defaultValue else Inr (sanitize v))"

definition getQuery :: "proto \<Rightarrow> request \<Rightarrow> string \<Rightarrow> jsval \<Rightarrow> error + jsval" where
  "getQuery P rq key defaultValue = input P rq key defaultValue ''query''"

definition getBody :: "proto \<Rightarrow> request \<Rightarrow> string \<Rightarrow> jsval \<Rightarrow> error + jsval" where
  "getBody P rq key defaultValue = input P rq key defaultValue ''body''"

definition getParam :: "proto \<Rightarrow> request \<Rightarrow> string \<Rightarrow> jsval \<Rightarrow> error + jsval" where
  "getParam P rq key defaultValue = input P rq key defaultValue ''params''"

definition getValue :: "proto \<Rightarrow> request \<Rightarrow> string \<Rightarrow> jsval \<Rightarrow> error + jsval" where
  "getValue P rq key defaultValue =
     (case hasOwnProperty P (JObj (rq_query rq)) key of
        Inl e \<Rightarrow> Inl e
      | Inr True \<Rightarrow> getQuery P rq key defaultValue
      | Inr False \<Rightarrow>
          (case hasOwnProperty P (JObj (rq_params rq)) key of
             Inl e \<Rightarrow> Inl e
           | Inr True \<Rightarrow> getParam P rq key defaultValue
           | Inr False \<Rightarrow>
               (case hasOwnProperty P (rq_body rq) key of
                  Inl e \<Rightarrow> Inl e
                | Inr True \<Rightarrow> getBody P rq key defaultValue
                | Inr False \<Rightarrow> Inr JUndefined)))"

definition getSanitizedInput ::
  "proto \<Rightarrow> (string \<Rightarrow> jsval \<Rightarrow> options \<Rightarrow> jsval) \<Rightarrow> request \<Rightarrow> string \<Rightarrow> jsval \<Rightarrow> string
     \<Rightarrow> options \<Rightarrow> error + jsval" where
  "getSanitizedInput P others rq key defaultValue ty opts =
     (case getValue P rq key defaultValue of
        Inl e \<Rightarrow> Inl e
      | Inr v \<Rightarrow> Inr (InputSanitizer_sanitize others v ty opts))"





text \<open>A request used to evaluate the functions above on concrete data.\<close>

definition example_request :: request where
  "example_request =
     \<lparr>rq_method = ''POST'',
      rq_query = [(''q'', JStr [CHR '' '', CHR ''a'', CHR 0x27, CHR ''b'', CHR '' ''])],
      rq_params = [(''id'', JStr ''7'')],
      rq_body = JObj [(''k'', JArr [JStr ''<b>x</b>'', JObj [(''n'', JStr [CHR ''a'', CHR 0x00])]]),
                      (''z'', JNull)]\<rparr>"

section \<open>Regular expressions\<close>

text \<open>
  The fragment of JavaScript regular expressions that the repository's patterns use:
  literal characters, character classes, sequence, alternation, greedy repetition of a
  character class (\<open>*\<close>, \<open>+\<close>), the assertions \<open>^\<close>, \<open>$\<close> and \<open>\b\<close>, and numbered
  capturing groups.  The matcher is the backtracking one of the language: alternatives
  are tried left to right, a repetition takes as many characters as it can and gives
  them back one at a time, and the first way to match the whole pattern is the result.
  The continuation \<open>k\<close> is the rest of the pattern; it receives the position reached and
  the captures made so far.
\<close>

datatype rx =
    Lit char
  | Cls "char \<Rightarrow> bool"
  | Seq rx rx
  | Alt rx rx
  | Eps
  | Star "char \<Rightarrow> bool"
  | Plus "char \<Rightarrow> bool"
  | WordB
  | Bol
  | Eol
  | Group nat rx

text \<open>The class \<open>\w\<close>: letters, digits and the underscore.\<close>

definition is_word :: "char \<Rightarrow> bool" where
  "is_word c =
     (let n = (of_char c :: nat)
      in (48 \<le> n \<and> n \<le> 57) \<or> (65 \<le> n \<and> n \<le> 90) \<or> (97 \<le> n \<and> n \<le> 122) \<or> n = 95)"

text \<open>
  Case-insensitive comparison (flag \<open>i\<close>) compares canonical forms: the upper-case letter
  where one exists among the code units below 256 (a to z, and the Latin-1 small letters
  0xE0 to 0xFE without the division sign 0xF7).
\<close>

definition canonicalize :: "char \<Rightarrow> char" where
  "canonicalize c =
     (let n = (of_char c :: nat)
      in if (97 \<le> n \<and> n \<le> 122) \<or> (224 \<le> n \<and> n \<le> 254 \<and> n \<noteq> 247)
         then char_of (n - 32) else c)"

definition same_char :: "bool \<Rightarrow> char \<Rightarrow> char \<Rightarrow> bool" where
  "same_char ci c x = (if ci then canonicalize c = canonicalize x else c = x)"

text \<open>Greedy choice of a repetition count: from \<open>n\<close> down to \<open>lo\<close>, the first count with
  which the rest of the pattern matches.\<close>

fun first_down :: "(nat \<Rightarrow> 'a option) \<Rightarrow> nat \<Rightarrow> nat \<Rightarrow> 'a option" where
  "first_down k lo 0 = (if lo = 0 then k 0 else None)"
| "first_down k lo (Suc n) =
     (if Suc n < lo then None
      else case k (Suc n) of Some r \<Rightarrow> Some r | None \<Rightarrow> first_down k lo n)"

definition word_boundary :: "string \<Rightarrow> nat \<Rightarrow> bool" where
  "word_boundary s i =
     ((0 < i \<and> is_word (s ! (i - 1))) \<noteq> (i < length s \<and> is_word (s ! i)))"

type_synonym captures = "(nat \<times> string) list"

fun rx_match ::
  "bool \<Rightarrow> string \<Rightarrow> rx \<Rightarrow> nat \<Rightarrow> captures \<Rightarrow> (nat \<Rightarrow> captures \<Rightarrow> 'a option) \<Rightarrow> 'a option" where
  "rx_match ci s (Lit c) i caps k =
     (if i < length s \<and> same_char ci c (s ! i) then k (Suc i) caps else None)"
| "rx_match ci s (Cls P) i caps k =
     (if i < length s \<and> P (s ! i) then k (Suc i) caps else None)"
| "rx_match ci s (Seq a b) i caps k =
     rx_match ci s a i caps (\<lambda>j caps'. rx_match ci s b j caps' k)"
| "rx_match ci s (Alt a b) i caps k =
     (case rx_match ci s a i caps k of
        Some r \<Rightarrow> Some r
      | None \<Rightarrow> rx_match ci s b i caps k)"
| "rx_match ci s Eps i caps k = k i caps"
| "rx_match ci s (Star P) i caps k =
     first_down (\<lambda>n. k (i + n) caps) 0 (length (takeWhile P (drop i s)))"
| "rx_match ci s (Plus P) i caps k =
     first_down (\<lambda>n. k (i + n) caps) 1 (length (takeWhile P (drop i s)))"
| "rx_match ci s WordB i caps k = (if word_boundary s i then k i caps else None)"
| "rx_match ci s Bol i caps k = (if i = 0 then k i caps else None)"
| "rx_match ci s Eol i caps k = (if i = length s then k i caps else None)"
| "rx_match ci s (Group n a) i caps k =
     rx_match ci s a i caps (\<lambda>j caps'. k j (caps' @ [(n, take (j - i) (drop i s))]))"

text \<open>
  \<open>RegExp.prototype.exec\<close> without the flag \<open>g\<close>: the match at the leftmost start
  position that has one; the result is the captures.  \<open>test\<close> says whether there is
  one.
\<close>

fun first_start :: "(nat \<Rightarrow> 'a option) \<Rightarrow> nat list \<Rightarrow> 'a option" where
  "first_start f [] = None"
| "first_start f (i # is) = (case f i of Some r \<Rightarrow> Some r | None \<Rightarrow> first_start f is)"

definition rx_exec :: "bool \<Rightarrow> rx \<Rightarrow> string \<Rightarrow> captures option" where
  "rx_exec ci r s =
     first_start (\<lambda>i. rx_match ci s r i [] (\<lambda>j caps. Some caps)) [0 ..< Suc (length s)]"

definition rx_test :: "bool \<Rightarrow> rx \<Rightarrow> string \<Rightarrow> bool" where
  "rx_test ci r s = (rx_exec ci r s \<noteq> None)"

text \<open>A literal text, and an alternation of several patterns.\<close>

fun rx_str :: "string \<Rightarrow> rx" where
  "rx_str [] = Eps"
| "rx_str [c] = Lit c"
| "rx_str (c # cs) = Seq (Lit c) (rx_str cs)"

fun rx_alts :: "rx list \<Rightarrow> rx" where
  "rx_alts [] = Eps"
| "rx_alts [r] = r"
| "rx_alts (r # rs) = Alt r (rx_alts rs)"

fun rx_seq :: "rx list \<Rightarrow> rx" where
  "rx_seq [] = Eps"
| "rx_seq [r] = r"
| "rx_seq (r # rs) = Seq r (rx_seq rs)"

section \<open>The injection heuristic\<close>

text \<open>
  \<open>detectSqlInjection\<close>: false for a value that is falsy or not a string; otherwise
  true when one of the seven patterns matches somewhere in the text.  Each pattern is
  paired with its flag \<open>i\<close>.
\<close>

definition alnum_class :: "char \<Rightarrow> bool" where
  "alnum_class c = (is_digit c \<or> is_word c)"

definition sqlInjectionPatterns :: "(bool \<times> rx) list" where
  "sqlInjectionPatterns =
    [(True, Group 1 (rx_seq [WordB,
        Group 2 (rx_alts (map rx_str [''SELECT'', ''INSERT'', ''UPDATE'', ''DELETE'', ''DROP'',
                                      ''CREATE'', ''ALTER'', ''EXEC'', ''EXECUTE''])),
        WordB])),
     (True, Group 1 (rx_seq [rx_str ''UNION'', Plus is_space, rx_str ''SELECT''])),
     (False, Group 1 (rx_alts [rx_str ''--'', rx_str ''/*'', rx_str ''*/''])),
     (True, rx_seq [Group 1 (Alt (rx_seq [WordB, rx_str ''OR'', WordB])
                                  (rx_seq [WordB, rx_str ''AND'', WordB])),
                    Plus is_space, Plus alnum_class, Star is_space, Lit (CHR ''=''),
                    Star is_space, Plus alnum_class]),
     (True, Group 1 (rx_seq [Lit (CHR '';''), Star is_space,
        Group 2 (rx_alts (map rx_str [''SELECT'', ''INSERT'', ''UPDATE'', ''DELETE'', ''DROP'']))])),
     (True, Group 1 (Alt (Seq WordB (rx_str ''xp_'')) (Seq WordB (rx_str ''sp_'')))),
     (True, Group 1 (rx_alts (map rx_str [''INFORMATION_SCHEMA'', ''SYSOBJECTS'', ''SYSCOLUMNS''])))]"

definition detectSqlInjection :: "jsval \<Rightarrow> bool" where
  "detectSqlInjection v =
     (if \<not> truthy v \<or> typeof v \<noteq> ''string'' then False
      else list_ex (\<lambda>(ci, r). rx_test ci r (js_String v)) sqlInjectionPatterns)"

section \<open>Data access layer\<close>

text \<open>
  A parameter bound to a statement is a JavaScript value or a \<open>Date\<close> object (an
  invalid date, or a time in milliseconds since the epoch).
\<close>

datatype jsdate = InvalidDate | DateMs int

datatype param = PVal jsval | PDate jsdate

text \<open>
  The store driver is a parameter: whether opening a connection fails, and what the
  store answers to a statement with its bound parameters (rows, a result header or an
  error).
\<close>

record driver =
  connect_error :: "error option"
  run :: "string \<Rightarrow> param list \<Rightarrow> error + jsval"

text \<open>
  The database object: its configuration, whether it holds an open connection, and the
  statements handed to the driver so far, each with its parameters, oldest first.
\<close>

record database =
  db_host :: string
  db_user :: string
  db_password :: string
  db_database :: string
  connection :: bool
  sent :: "(string \<times> param list) list"

definition connect :: "driver \<Rightarrow> database \<Rightarrow> error + database" where
  "connect drv db =
     (if db_host db = [] \<or> db_user db = [] \<or> db_password db = [] \<or> db_database db = []
      then Inl (PlainError ''Invalid database connection. Please provide connection parameters'')
      else case connect_error drv of
             Some e \<Rightarrow> Inl e
           | None \<Rightarrow> Inr (db\<lparr>connection := True\<rparr>))"

text \<open>\<open>_sanitizeParams\<close>: the first string parameter that the heuristic flags aborts the
  mapping with an error; otherwise the parameters come back unchanged.\<close>

fun sanitizeParams :: "param list \<Rightarrow> error + param list" where
  "sanitizeParams [] = Inr []"
| "sanitizeParams (PVal v # ps) =
     (if typeof v = ''string'' \<and> detectSqlInjection v
      then Inl (PlainError ''Potential SQL injection detected in parameter value'')
      else case sanitizeParams ps of Inl e \<Rightarrow> Inl e | Inr qs \<Rightarrow> Inr (PVal v # qs))"
| "sanitizeParams (PDate d # ps) =
     (case sanitizeParams ps of Inl e \<Rightarrow> Inl e | Inr qs \<Rightarrow> Inr (PDate d # qs))"

text \<open>
  \<open>query\<close>: connect when there is no connection yet, check the parameters, then hand the
  statement and the parameters to the driver.  The result pairs the outcome with the
  database object as the call leaves it.
\<close>

definition query :: "driver \<Rightarrow> database \<Rightarrow> string \<Rightarrow> param list \<Rightarrow> (error + jsval) \<times> database" where
  "query drv db sql params =
     (case (if \<not> connection db then connect drv db else Inr db) of
        Inl e \<Rightarrow> (Inl e, db)
      | Inr db1 \<Rightarrow>
          (case sanitizeParams params of
             Inl e \<Rightarrow> (Inl e, db1)
           | Inr sanitizedParams \<Rightarrow>
               (run drv sql params, db1\<lparr>sent := sent db1 @ [(sql, params)]\<rparr>)))"

definition execute :: "driver \<Rightarrow> database \<Rightarrow> string \<Rightarrow> param list \<Rightarrow> (error + jsval) \<times> database" where
  "execute drv db sql params = query drv db sql params"

text \<open>\<open>fetchFirst\<close>: the first row when the result has a non-zero \<open>length\<close>, else
  \<open>null\<close>.\<close>

definition fetchFirst :: "driver \<Rightarrow> database \<Rightarrow> string \<Rightarrow> param list \<Rightarrow> (error + jsval) \<times> database" where
  "fetchFirst drv db sql params =
     (case query drv db sql params of
        (Inl e, db') \<Rightarrow> (Inl e, db')
      | (Inr result, db') \<Rightarrow>
          (case result of
             JArr (row # rows) \<Rightarrow> (Inr row, db')
           | _ \<Rightarrow> (Inr JNull, db')))"

text \<open>A parameter that the check rejects.\<close>

fun flagged :: "param \<Rightarrow> bool" where
  "flagged (PVal v) = (typeof v = ''string'' \<and> detectSqlInjection v)"
| "flagged (PDate d) = False"

text \<open>A configured database object without a connection, and a driver that connects and
  answers every statement with no rows.\<close>

definition example_database :: database where
  "example_database =
     \<lparr>db_host = ''localhost'', db_user = ''root'', db_password = ''secret'',
      db_database = ''api_database'', connection = False, sent = []\<rparr>"

definition example_driver :: driver where
  "example_driver = \<lparr>connect_error = None, run = (\<lambda>sql params. Inr (JArr []))\<rparr>"

section \<open>Listing models\<close>

text \<open>
  \<open>ProductsModel.readAll\<close> and \<open>OrdersModel.readAll\<close> build the statement with a
  template literal: the printed offset and limit become part of the text, and the
  parameter list is empty.
\<close>

definition ProductsModel_readAll ::
  "driver \<Rightarrow> database \<Rightarrow> jsval \<Rightarrow> jsval \<Rightarrow> (error + jsval) \<times> database" where
  "ProductsModel_readAll drv db offset limit =
     query drv db (''SELECT * FROM products LIMIT '' @ js_String offset @ '', '' @ js_String limit) []"

definition OrdersModel_readAll ::
  "driver \<Rightarrow> database \<Rightarrow> jsval \<Rightarrow> jsval \<Rightarrow> (error + jsval) \<times> database" where
  "OrdersModel_readAll drv db offset limit =
     query drv db (''SELECT * FROM orders LIMIT '' @ js_String offset @ '', '' @ js_String limit) []"

section \<open>Router\<close>

text \<open>
  The regular-expression engine is the runtime's and is a parameter of the router.
  \<open>new RegExp(source)\<close> either raises a \<open>SyntaxError\<close>, given here by its message,
  or yields a regular expression.  A regular expression without flags is the function
  that \<open>text.match\<close> computes with it: no match, or the list of the capture groups
  \<open>match[1]\<close>, \<open>match[2]\<close> and so on, each a string, or \<open>undefined\<close> for a group
  that took no part in the match.
\<close>

type_synonym regexp = "string \<Rightarrow> jsval list option"

type_synonym engine = "string \<Rightarrow> string + regexp"

record route =
  path :: string
  pattern :: regexp
  keys :: "string list"
  controller :: string
  action :: string

text \<open>The routes object: one list of routes, in registration order, under each of the
  five method names.\<close>

record router =
  routes :: "(string \<times> route list) list"

definition Router :: router where
  "Router = \<lparr>routes = [(''GET'', []), (''POST'', []), (''PUT'', []), (''DELETE'', []), (''PATCH'', [])]\<rparr>"

text \<open>
  \<open>_pathToRegex\<close> builds the source text of the pattern with two replacements: a
  backslash is put before every slash, and then every match of \<open>/:(\w+)/g\<close> (from the
  left, a colon followed by at least one word character, with the longest run of word
  characters) is replaced by the group \<open>([^\/]+)\<close>.  The text between \<open>^\<close> and
  \<open>$\<close> is handed to the engine as it is; the path is not escaped.
\<close>

definition param_group :: string where
  "param_group = [CHR ''('', CHR ''['', CHR ''^'', CHR 0x5C, CHR ''/'', CHR '']'', CHR ''+'', CHR '')'']"

function replace_params :: "string \<Rightarrow> string" where
  "replace_params [] = []"
| "replace_params (c # cs) =
     (if c = CHR '':'' \<and> cs \<noteq> [] \<and> is_word (hd cs)
      then param_group @ replace_params (dropWhile is_word cs)
      else c # replace_params cs)"
  by pat_completeness auto
termination
proof (relation "measure length")
  fix c :: char and cs :: string
  have "length (dropWhile is_word cs) \<le> length cs"
    by (rule length_dropWhile_le)
  then show "(dropWhile is_word cs, c # cs) \<in> measure length"
    by simp
qed simp_all

definition regex_source :: "string \<Rightarrow> string" where
  "regex_source p =
     ''^'' @ replace_params (replace_all (CHR ''/'') [CHR 0x5C, CHR ''/''] p) @ ''$''"

definition pathToRegex :: "engine \<Rightarrow> string \<Rightarrow> error + regexp" where
  "pathToRegex E p =
     (case E (regex_source p) of
        Inl m \<Rightarrow> Inl (SyntaxError m)
      | Inr re \<Rightarrow> Inr re)"

text \<open>\<open>_extractParamKeys\<close>: the names that \<open>/:(\w+)/g\<close> finds in the path, in
  order.\<close>

function extractParamKeys :: "string \<Rightarrow> string list" where
  "extractParamKeys [] = []"
| "extractParamKeys (c # cs) =
     (if c = CHR '':'' \<and> cs \<noteq> [] \<and> is_word (hd cs)
      then takeWhile is_word cs # extractParamKeys (dropWhile is_word cs)
      else extractParamKeys cs)"
  by pat_completeness auto
termination
proof (relation "measure length")
  fix c :: char and cs :: string
  have "length (dropWhile is_word cs) \<le> length cs"
    by (rule length_dropWhile_le)
  then show "(dropWhile is_word cs, c # cs) \<in> measure length"
    by simp
qed simp_all

text \<open>
  \<open>_addRoute\<close> compiles the pattern, which can raise the engine's \<open>SyntaxError\<close>,
  extracts the keys and pushes the route onto the list of its method; on a method that
  the routes object does not have, \<open>push\<close> is called on \<open>undefined\<close> or on an
  inherited member without such a function, and raises a \<open>TypeError\<close>.
\<close>

fun push_route :: "(string \<times> route list) list \<Rightarrow> string \<Rightarrow> route \<Rightarrow> (string \<times> route list) list" where
  "push_route [] m r = []"
| "push_route ((m', rs) # rest) m r =
     (if m' = m then (m', rs @ [r]) # rest else (m', rs) # push_route rest m r)"

definition addRoute ::
  "engine \<Rightarrow> router \<Rightarrow> string \<Rightarrow> string \<Rightarrow> string \<Rightarrow> string \<Rightarrow> error + router" where
  "addRoute E rt method p c a =
     (case pathToRegex E p of
        Inl e \<Rightarrow> Inl e
      | Inr re \<Rightarrow>
          (case map_of (routes rt) method of
             None \<Rightarrow> Inl TypeError
           | Some rs \<Rightarrow>
               Inr (rt\<lparr>routes := push_route (routes rt) method
                      \<lparr>path = p, pattern = re, keys = extractParamKeys p,
                       controller = c, action = a\<rparr>\<rparr>)))"

definition get :: "engine \<Rightarrow> router \<Rightarrow> string \<Rightarrow> string \<Rightarrow> string \<Rightarrow> error + router" where
  "get E rt p c a = addRoute E rt ''GET'' p c a"

definition post :: "engine \<Rightarrow> router \<Rightarrow> string \<Rightarrow> string \<Rightarrow> string \<Rightarrow> error + router" where
  "post E rt p c a = addRoute E rt ''POST'' p c a"

definition put :: "engine \<Rightarrow> router \<Rightarrow> string \<Rightarrow> string \<Rightarrow> string \<Rightarrow> error + router" where
  "put E rt p c a = addRoute E rt ''PUT'' p c a"

definition delete :: "engine \<Rightarrow> router \<Rightarrow> string \<Rightarrow> string \<Rightarrow> string \<Rightarrow> error + router" where
  "delete E rt p c a = addRoute E rt ''DELETE'' p c a"

definition patch :: "engine \<Rightarrow> router \<Rightarrow> string \<Rightarrow> string \<Rightarrow> string \<Rightarrow> error + router" where
  "patch E rt p c a = addRoute E rt ''PATCH'' p c a"

text \<open>Setting a property of an object under a key that is no array index and not
  \<open>__proto__\<close> (the names of headers and of cookie options): in place when the key is
  there, at the end otherwise.\<close>

fun obj_set :: "(string \<times> 'v) list \<Rightarrow> string \<Rightarrow> 'v \<Rightarrow> (string \<times> 'v) list" where
  "obj_set [] k v = [(k, v)]"
| "obj_set ((k', v') # rest) k v =
     (if k' = k then (k', v) # rest else (k', v') # obj_set rest k v)"

text \<open>\<open>match[i + 1]\<close>: the capture group at position \<open>i\<close>, \<open>undefined\<close> beyond
  the last group.\<close>

definition match_group :: "jsval list \<Rightarrow> nat \<Rightarrow> jsval" where
  "match_group groups i = (if i < length groups then groups ! i else JUndefined)"

record resolved =
  res_controller :: string
  res_action :: string
  res_params :: "(string \<times> jsval) list"

text \<open>The loop \<open>params[route.keys[i]] = match[i + 1]\<close> on the new object \<open>{}\<close>.\<close>

definition bind_params :: "string list \<Rightarrow> jsval list \<Rightarrow> (string \<times> jsval) list" where
  "bind_params ks groups =
     foldl (\<lambda>params i. assign params (ks ! i) (match_group groups i)) [] [0 ..< length ks]"

fun first_match :: "route list \<Rightarrow> string \<Rightarrow> resolved option" where
  "first_match [] pathname = None"
| "first_match (r # rs) pathname =
     (case pattern r pathname of
        Some groups \<Rightarrow>
          Some \<lparr>res_controller = controller r, res_action = action r,
                res_params = bind_params (keys r) groups\<rparr>
      | None \<Rightarrow> first_match rs pathname)"

text \<open>
  \<open>match\<close> reads \<open>this.routes[method] || []\<close> and iterates over it.  Under one of
  the five method names that is the list of the routes.  Under any other name the routes
  object has no own property, and the read gives what the object inherits from
  \<open>Object.prototype\<close>: nothing for most names, so that the loop runs over the empty
  list and the result is \<open>null\<close>; a function or an object for the names of the
  members of \<open>Object.prototype\<close>, and iterating over that raises a \<open>TypeError\<close>.
\<close>

definition match :: "router \<Rightarrow> string \<Rightarrow> string \<Rightarrow> error + resolved option" where
  "match rt method pathname =
     (case map_of (routes rt) method of
        Some rs \<Rightarrow> Inr (first_match rs pathname)
      | None \<Rightarrow>
          if truthy (Object_prototype (JObj []) method) then Inl TypeError
          else Inr (first_match [] pathname))"

text \<open>
  A registration is one call of \<open>get\<close>, \<open>post\<close>, \<open>put\<close>, \<open>delete\<close> or \<open>patch\<close>;
  \<open>register_all\<close> makes the calls in order on a router.
\<close>

datatype verb = Get | Post | Put | Delete | Patch

record registration =
  reg_verb :: verb
  reg_path :: string
  reg_controller :: string
  reg_action :: string

fun verb_method :: "verb \<Rightarrow> string" where
  "verb_method Get = ''GET''"
| "verb_method Post = ''POST''"
| "verb_method Put = ''PUT''"
| "verb_method Delete = ''DELETE''"
| "verb_method Patch = ''PATCH''"

definition register :: "engine \<Rightarrow> router \<Rightarrow> registration \<Rightarrow> error + router" where
  "register E rt g =
     (case reg_verb g of
        Get \<Rightarrow> get E rt (reg_path g) (reg_controller g) (reg_action g)
      | Post \<Rightarrow> post E rt (reg_path g) (reg_controller g) (reg_action g)
      | Put \<Rightarrow> put E rt (reg_path g) (reg_controller g) (reg_action g)
      | Delete \<Rightarrow> delete E rt (reg_path g) (reg_controller g) (reg_action g)
      | Patch \<Rightarrow> patch E rt (reg_path g) (reg_controller g) (reg_action g))"

fun register_all :: "engine \<Rightarrow> router \<Rightarrow> registration list \<Rightarrow> error + router" where
  "register_all E rt [] = Inr rt"
| "register_all E rt (g # gs) =
     (case register E rt g of Inl e \<Rightarrow> Inl e | Inr rt' \<Rightarrow> register_all E rt' gs)"

text \<open>\<open>setupRoutes\<close> of the server, with the default \<open>API_PATH\<close>.\<close>

definition reg :: "verb \<Rightarrow> string \<Rightarrow> string \<Rightarrow> string \<Rightarrow> registration" where
  "reg v p c a = \<lparr>reg_verb = v, reg_path = ''/api/v1'' @ p, reg_controller = c, reg_action = a\<rparr>"

definition setupRoutes :: "registration list" where
  "setupRoutes =
    [reg Get ''/auth/session'' ''UserController'' ''session'',
     reg Delete ''/auth/session'' ''UserController'' ''session'',
     reg Post ''/auth/login'' ''UserController'' ''login'',
     reg Post ''/auth/logout'' ''UserController'' ''logout'',
     reg Post ''/user'' ''UserController'' ''create'',
     reg Get ''/user/:userId'' ''UserController'' ''read'',
     reg Put ''/user/:userId'' ''UserController'' ''update'',
     reg Delete ''/user/:userId'' ''UserController'' ''delete'',
     reg Post ''/user/sendMail'' ''UserController'' ''sendMail'',
     reg Get ''/products/categories'' ''ProductsController'' ''readCategories'',
     reg Get ''/products/category/:name'' ''ProductsController'' ''readCategory'',
     reg Get ''/products'' ''ProductsController'' ''readAll'',
     reg Get ''/products/:id'' ''ProductsController'' ''read'',
     reg Put ''/products/:id'' ''ProductsController'' ''update'',
     reg Delete ''/products/:id'' ''ProductsController'' ''delete'',
     reg Get ''/orders/statuses'' ''OrdersController'' ''readStatuses'',
     reg Get ''/orders/status/:name'' ''OrdersController'' ''readStatus'',
     reg Get ''/orders'' ''OrdersController'' ''readAll'',
     reg Get ''/orders/:id'' ''OrdersController'' ''read'',
     reg Get ''/report/:reportId'' ''ReportController'' ''index'']"

text \<open>
  Three notions used to state the router's properties: whether the pattern of a
  registration compiles, what it captures from a path (\<open>None\<close> when it does not accept
  the path), and the route that a registration stores.
\<close>

definition compiles :: "engine \<Rightarrow> registration \<Rightarrow> bool" where
  "compiles E g = (case pathToRegex E (reg_path g) of Inl e \<Rightarrow> False | Inr re \<Rightarrow> True)"

definition captured :: "engine \<Rightarrow> registration \<Rightarrow> string \<Rightarrow> jsval list option" where
  "captured E g p = (case pathToRegex E (reg_path g) of Inl e \<Rightarrow> None | Inr re \<Rightarrow> re p)"

definition mk_route :: "engine \<Rightarrow> registration \<Rightarrow> route" where
  "mk_route E g =
     \<lparr>path = reg_path g, pattern = captured E g, keys = extractParamKeys (reg_path g),
      controller = reg_controller g, action = reg_action g\<rparr>"

text \<open>
  An engine to evaluate the router with.  It reads the sources that \<open>_pathToRegex\<close>
  writes for a path without regular-expression operators: \<open>^\<close>, then escaped slashes,
  parameter groups and characters that stand for themselves, then \<open>$\<close>.  On these
  sources it matches as the language does, by the matcher of section Regular expressions
  (all groups take part in a match, so every capture is a string).  It stands for the
  runtime's engine on these sources only: every other source it rejects, whatever the
  runtime's engine makes of it.
\<close>

definition not_slash :: "char \<Rightarrow> bool" where
  "not_slash c = (c \<noteq> CHR ''/'')"

definition regex_operators :: "char list" where
  "regex_operators =
     [CHR 0x5C, CHR ''^'', CHR ''$'', CHR ''.'', CHR ''|'', CHR ''?'', CHR ''*'', CHR ''+'',
      CHR ''('', CHR '')'', CHR ''['', CHR '']'', CHR ''{'', CHR ''}'']"

function parse_plain :: "nat \<Rightarrow> string \<Rightarrow> rx option" where
  "parse_plain n s =
     (if s = ''$'' then Some Eol
      else if take 2 s = [CHR 0x5C, CHR ''/'']
      then map_option (Seq (Lit (CHR ''/''))) (parse_plain n (drop 2 s))
      else if take 8 s = param_group
      then map_option (Seq (Group n (Plus not_slash))) (parse_plain (Suc n) (drop 8 s))
      else case s of
             [] \<Rightarrow> None
           | c # cs \<Rightarrow>
               if c \<in> set regex_operators then None
               else map_option (Seq (Lit c)) (parse_plain n cs))"
  by pat_completeness auto
termination
proof (relation "measure (\<lambda>(n, s). length s)")
  fix n :: nat and s :: string
  assume "take 2 s = [CHR 0x5C, CHR ''/'']"
  then have "s \<noteq> []" by auto
  then show "((n, drop 2 s), (n, s)) \<in> measure (\<lambda>(n, s). length s)"
    by simp
next
  fix n :: nat and s :: string
  assume "take 8 s = param_group"
  then have "s \<noteq> []" by (auto simp add: param_group_def)
  then show "((Suc n, drop 8 s), (n, s)) \<in> measure (\<lambda>(n, s). length s)"
    by simp
qed simp_all

declare parse_plain.simps [simp del]

definition plain_RegExp :: engine where
  "plain_RegExp source =
     (case source of
        [] \<Rightarrow> Inl ''Invalid regular expression''
      | c # rest \<Rightarrow>
          if c \<noteq> CHR ''^'' then Inl ''Invalid regular expression''
          else case parse_plain 1 rest of
                 None \<Rightarrow> Inl ''Invalid regular expression''
               | Some r \<Rightarrow>
                   Inr (\<lambda>subject. map_option (map (JStr \<circ> snd)) (rx_exec False (Seq Bol r) subject)))"

section \<open>Exceptions\<close>

text \<open>
  An \<open>ApiException\<close> carries its class name, its status code and its final message.  The
  constructor takes the message (absent, or a text, where the empty text counts as
  absent), the context variables (\<open>null\<close> or an object) and the code; with variables
  the message is extended by \<open>(key: value, ...)\<close>.
\<close>

definition final_message :: "string \<Rightarrow> (string \<times> jsval) list option \<Rightarrow> string" where
  "final_message message vars =
     (if message = [] then ''An error occurred'' else message)
     @ (case vars of
          None \<Rightarrow> []
        | Some kvs \<Rightarrow>
            '' ('' @ intercalate '', '' (map (\<lambda>(k, v). k @ '': '' @ js_String v) kvs) @ '')'')"

definition new_ApiException ::
  "string \<Rightarrow> string \<Rightarrow> (string \<times> jsval) list option \<Rightarrow> int \<Rightarrow> error" where
  "new_ApiException name message vars code = ApiException name code (final_message message vars)"

text \<open>The six classes of \<open>CustomExceptions.js\<close>; an absent message is the class's
  default text.\<close>

definition AuthenticationException :: "string option \<Rightarrow> (string \<times> jsval) list option \<Rightarrow> error" where
  "AuthenticationException message vars =
     new_ApiException ''AuthenticationException''
       (case message of None \<Rightarrow> ''Authentication failed'' | Some m \<Rightarrow> m) vars 401"

definition MethodNotAllowedException :: "string option \<Rightarrow> (string \<times> jsval) list option \<Rightarrow> error" where
  "MethodNotAllowedException message vars =
     new_ApiException ''MethodNotAllowedException''
       (case message of None \<Rightarrow> ''HTTP method not allowed for this endpoint'' | Some m \<Rightarrow> m)
       vars 405"

definition MethodNotFoundException :: "string option \<Rightarrow> (string \<times> jsval) list option \<Rightarrow> error" where
  "MethodNotFoundException message vars =
     new_ApiException ''MethodNotFoundException''
       (case message of None \<Rightarrow> ''The requested method was not found'' | Some m \<Rightarrow> m) vars 404"

definition MissingParametersException :: "string option \<Rightarrow> (string \<times> jsval) list option \<Rightarrow> error" where
  "MissingParametersException message vars =
     new_ApiException ''MissingParametersException''
       (case message of None \<Rightarrow> ''Required parameters are missing'' | Some m \<Rightarrow> m) vars 400"

definition NotFoundException :: "string option \<Rightarrow> (string \<times> jsval) list option \<Rightarrow> error" where
  "NotFoundException message vars =
     new_ApiException ''NotFoundException''
       (case message of None \<Rightarrow> ''Resource not found'' | Some m \<Rightarrow> m) vars 404"

definition ValidationException :: "string option \<Rightarrow> (string \<times> jsval) list option \<Rightarrow> error" where
  "ValidationException message vars =
     new_ApiException ''ValidationException''
       (case message of None \<Rightarrow> ''Validation failed'' | Some m \<Rightarrow> m) vars 422"

text \<open>
  \<open>error.message\<close>.  The wording of the engine's own \<open>TypeError\<close> is a parameter.
\<close>

fun message_of :: "string \<Rightarrow> error \<Rightarrow> string" where
  "message_of engine_text TypeError = engine_text"
| "message_of engine_text (ReferenceError m) = m"
| "message_of engine_text (PlainError m) = m"
| "message_of engine_text (ApiException name code m) = m"
| "message_of engine_text (SyntaxError m) = m"

section \<open>Response\<close>

text \<open>
  The response object: the status code and the headers set so far, and what has been
  written to the client, if anything.  A JSON body is kept as the value the client
  parses back: \<open>JSON.stringify\<close> drops the properties of an object that are
  \<open>undefined\<close> or functions, and turns such array elements and \<open>NaN\<close> into \<open>null\<close>.
\<close>

record response =
  statusCode :: int
  headers :: "(string \<times> string) list"
  written :: "jsval option"

definition Response :: response where
  "Response = \<lparr>statusCode = 200, headers = [(''Content-Type'', ''application/json'')], written = None\<rparr>"

fun json_value :: "jsval \<Rightarrow> jsval" where
  "json_value (JObj kvs) =
     JObj (map (\<lambda>(k, v). (k, json_value v))
             (filter (\<lambda>(k, v). v \<noteq> JUndefined \<and> typeof v \<noteq> ''function'') kvs))"
| "json_value (JArr xs) =
     JArr (map (\<lambda>x. if x = JUndefined \<or> typeof x = ''function'' then JNull else json_value x) xs)"
| "json_value JNaN = JNull"
| "json_value v = v"

definition status :: "response \<Rightarrow> int \<Rightarrow> response" where
  "status resp code = resp\<lparr>statusCode := code\<rparr>"

definition setHeader :: "response \<Rightarrow> string \<Rightarrow> string \<Rightarrow> response" where
  "setHeader resp name v = resp\<lparr>headers := obj_set (headers resp) name v\<rparr>"

text \<open>
  \<open>send\<close> writes the head and the body.  Writing a head twice, or a status code outside
  100 to 999, is an error of the HTTP layer.
\<close>

definition send :: "response \<Rightarrow> jsval \<Rightarrow> error + response" where
  "send resp data =
     (if written resp \<noteq> None then Inl (PlainError ''ERR_HTTP_HEADERS_SENT'')
      else if statusCode resp < 100 \<or> statusCode resp > 999
      then Inl (PlainError ''ERR_HTTP_INVALID_STATUS_CODE'')
      else Inr (resp\<lparr>written := Some data\<rparr>))"

definition json :: "response \<Rightarrow> jsval \<Rightarrow> error + response" where
  "json resp data = send (setHeader resp ''Content-Type'' ''application/json'') (json_value data)"

text \<open>Reading a property of an options object, \<open>undefined\<close> when it is not there.\<close>

definition option_of :: "(string \<times> jsval) list \<Rightarrow> string \<Rightarrow> jsval" where
  "option_of obj k = (case map_of obj k of Some v \<Rightarrow> v | None \<Rightarrow> JUndefined)"

text \<open>\<open>cookie\<close>: the options are laid over the defaults \<open>path: '/'\<close> and
  \<open>httpOnly: true\<close>; starting from \<open>name=value\<close> each attribute is appended when
  its condition holds, in the order Max-Age, Expires, Path, HttpOnly, Secure, SameSite;
  the header replaces an earlier \<open>Set-Cookie\<close>.\<close>

definition append_if :: "bool \<Rightarrow> string \<Rightarrow> string \<Rightarrow> string" where
  "append_if c a s = (if c then s @ a else s)"

definition cookie :: "response \<Rightarrow> string \<Rightarrow> string \<Rightarrow> (string \<times> jsval) list \<Rightarrow> response" where
  "cookie resp name v options =
     (let opts = foldl (\<lambda>acc (k, x). obj_set acc k x)
                   [(''path'', JStr ''/''), (''httpOnly'', JBool True)] options
      in setHeader resp ''Set-Cookie''
           (append_if (truthy (option_of opts ''sameSite''))
              (''; SameSite='' @ js_String (option_of opts ''sameSite''))
           (append_if (truthy (option_of opts ''secure'')) ''; Secure''
           (append_if (truthy (option_of opts ''httpOnly'')) ''; HttpOnly''
           (append_if (truthy (option_of opts ''path''))
              (''; Path='' @ js_String (option_of opts ''path''))
           (append_if (\<not> truthy (option_of opts ''maxAge'') \<and> truthy (option_of opts ''expires''))
              (''; Expires='' @ js_String (option_of opts ''expires''))
           (append_if (truthy (option_of opts ''maxAge'') \<and> \<not> truthy (option_of opts ''expires''))
              (''; Max-Age='' @ js_String (option_of opts ''maxAge''))
           (name @ ''='' @ v))))))))"

definition clearCookie :: "response \<Rightarrow> string \<Rightarrow> response" where
  "clearCookie resp name =
     cookie resp name [] [(''expires'', JStr ''Thu, 01 Jan 1970 00:00:00 GMT'')]"

section \<open>Dispatcher\<close>

text \<open>
  The \<open>catch\<close> block of \<open>handleRequest\<close>.  \<open>development\<close> says whether
  \<open>NODE_ENV\<close> is \<open>development\<close>.  For an \<open>ApiException\<close> the status is the error's
  code and the envelope holds the class name, \<open>code || 500\<close> and the message; for any
  other error the status is 500 and the name is \<open>Internal Server Error\<close>.  Outside
  development the message is \<open>undefined\<close>, which the JSON body drops.
\<close>

definition handle_error :: "bool \<Rightarrow> string \<Rightarrow> response \<Rightarrow> error \<Rightarrow> error + response" where
  "handle_error development engine_text resp err =
     (case err of
        ApiException name code m \<Rightarrow>
          json (status resp code)
            (JObj [(''error'', JStr name),
                   (''status'', JNum (if code \<noteq> 0 then code else 500)),
                   (''message'', if development then JStr m else JUndefined)])
      | _ \<Rightarrow>
          json (status resp 500)
            (JObj [(''error'', JStr ''Internal Server Error''),
                   (''status'', JNum 500),
                   (''message'',
                      if development then JStr (message_of engine_text err) else JUndefined)]))"

text \<open>
  \<open>parseBody\<close>.  The two parsers of the runtime are parameters: \<open>JSON.parse\<close>, which
  raises a \<open>SyntaxError\<close> on a malformed text (\<open>None\<close>), and \<open>querystring.parse\<close>.
  The promise of \<open>parseBody\<close> is resolved, or rejected with an error, or an error
  leaves the \<open>end\<close> listener uncaught and the promise is never settled.
\<close>

record parsers =
  json_parse :: "string \<Rightarrow> jsval option"
  form_parse :: "string \<Rightarrow> jsval"

datatype parse_outcome = Resolved request | Rejected error | Uncaught error

text \<open>\<open>text.includes(part)\<close>.\<close>

fun js_includes :: "string \<Rightarrow> string \<Rightarrow> bool" where
  "js_includes [] part = (part = [])"
| "js_includes (c # cs) part = (take (length part) (c # cs) = part \<or> js_includes cs part)"

text \<open>The \<open>data\<close> listener appends each chunk and rejects once the text is longer than
  1 MiB.\<close>

fun accumulate :: "string \<Rightarrow> string list \<Rightarrow> error + string" where
  "accumulate body [] = Inr body"
| "accumulate body (chunk # chunks) =
     (if length (body @ chunk) > 1024 * 1024 then Inl (PlainError ''Request body too large'')
      else accumulate (body @ chunk) chunks)"

text \<open>
  The \<open>end\<close> listener.  Its \<open>catch\<close> block calls \<open>reject(error)\<close> where no
  \<open>error\<close> is in scope (the caught exception is named \<open>e\<close>), so a failure of
  \<open>JSON.parse\<close> ends in a \<open>ReferenceError\<close> raised inside the listener.
\<close>

definition on_end :: "parsers \<Rightarrow> request \<Rightarrow> string \<Rightarrow> string \<Rightarrow> parse_outcome" where
  "on_end ps rq contentType body =
     (if js_includes contentType ''application/json''
      then (if body = [] then Resolved (rq\<lparr>rq_body := JObj []\<rparr>)
            else case json_parse ps body of
                   Some v \<Rightarrow> Resolved (rq\<lparr>rq_body := v\<rparr>)
                 | None \<Rightarrow> Uncaught (ReferenceError ''error is not defined''))
      else if js_includes contentType ''application/x-www-form-urlencoded''
      then Resolved (rq\<lparr>rq_body := form_parse ps body\<rparr>)
      else Resolved (rq\<lparr>rq_body := JStr body\<rparr>))"

text \<open>\<open>contentType\<close> is the \<open>content-type\<close> header, empty when there is none;
  \<open>chunks\<close> are the pieces in which the body arrives.\<close>

definition parseBody :: "parsers \<Rightarrow> request \<Rightarrow> string \<Rightarrow> string list \<Rightarrow> parse_outcome" where
  "parseBody ps rq contentType chunks =
     (if rq_method rq = ''GET'' \<or> rq_method rq = ''DELETE'' then Resolved rq
      else case accumulate [] chunks of
             Inl e \<Rightarrow> Rejected e
           | Inr body \<Rightarrow> on_end ps rq contentType body)"

text \<open>
  \<open>handleRequest\<close>.  The controller actions are a parameter:
  \<open>actions controller action\<close> is the action's behaviour on the request and the response
  (its outcome and the response as it leaves it), or \<open>None\<close> when the controller has no
  such function.  Every error with which \<open>parseBody\<close> rejects or which \<open>match\<close> or
  the action raises goes to the \<open>catch\<close> block.  The result is the response written
  to the client, or the error that escaped the dispatcher, in which case the client gets
  no response.
\<close>

definition handleRequest ::
  "bool \<Rightarrow> string \<Rightarrow> router
     \<Rightarrow> (string \<Rightarrow> string \<Rightarrow> (request \<Rightarrow> response \<Rightarrow> (error + unit) \<times> response) option)
     \<Rightarrow> parse_outcome \<Rightarrow> string \<Rightarrow> string \<Rightarrow> error + response" where
  "handleRequest development engine_text rt actions parsed method pathname =
     (case parsed of
        Uncaught e \<Rightarrow> Inl e
      | Rejected e \<Rightarrow> handle_error development engine_text Response e
      | Resolved rq \<Rightarrow>
          (case match rt method pathname of
             Inl e \<Rightarrow> handle_error development engine_text Response e
           | Inr None \<Rightarrow>
               json (status Response 404)
                 (JObj [(''error'', JStr ''Route not found''), (''path'', JStr pathname)])
           | Inr (Some route) \<Rightarrow>
               (case actions (res_controller route) (res_action route) of
                  None \<Rightarrow>
                    json (status Response 500)
                      (JObj [(''error'', JStr ''Controller action not found'')])
                | Some act \<Rightarrow>
                    (case act (rq\<lparr>rq_params := res_params route\<rparr>) Response of
                       (Inl e, resp) \<Rightarrow> handle_error development engine_text resp e
                     | (Inr u, resp) \<Rightarrow> Inr resp))))"

text \<open>The classified kinds: the class names of \<open>CustomExceptions.js\<close> with their
  codes.\<close>

definition classified_kinds :: "(string \<times> int) list" where
  "classified_kinds =
     [(''AuthenticationException'', 401), (''MethodNotAllowedException'', 405),
      (''MethodNotFoundException'', 404), (''MissingParametersException'', 400),
      (''NotFoundException'', 404), (''ValidationException'', 422)]"

fun classified :: "error \<Rightarrow> bool" where
  "classified (ApiException name code m) = ((name, code) \<in> set classified_kinds)"
| "classified e = False"

fun is_ApiException :: "error \<Rightarrow> bool" where
  "is_ApiException (ApiException name code m) = True"
| "is_ApiException e = False"

text \<open>The envelope that a client receives for an error: name, status and, in
  development only, the message.\<close>

definition envelope :: "bool \<Rightarrow> string \<Rightarrow> int \<Rightarrow> string \<Rightarrow> jsval" where
  "envelope development name code m =
     JObj ([(''error'', JStr name), (''status'', JNum code)]
           @ (if development then [(''message'', JStr m)] else []))"

text \<open>A router holding the report route, and controller actions of which the report action
  raises the not-found error and the product listing fails with a plain error.\<close>

definition example_router :: router where
  "example_router =
     \<lparr>routes = [(''GET'', [mk_route plain_RegExp (reg Get ''/report/:reportId'' ''ReportController'' ''index''),
                          mk_route plain_RegExp (reg Get ''/products'' ''ProductsController'' ''readAll'')])]\<rparr>"

definition example_actions ::
  "string \<Rightarrow> string \<Rightarrow> (request \<Rightarrow> response \<Rightarrow> (error + unit) \<times> response) option" where
  "example_actions c a =
     (if c = ''ReportController'' \<and> a = ''index''
      then Some (\<lambda>rq resp. (Inl (NotFoundException (Some ''Report not found'') None), resp))
      else if c = ''ProductsController'' \<and> a = ''readAll''
      then Some (\<lambda>rq resp. (Inl (PlainError ''connect ECONNREFUSED''), resp))
      else None)"

text \<open>The two parsers, as far as the evaluations below ask them: the JSON parser accepts
  the text \<open>{}\<close> and rejects every other text, among them the malformed \<open>{\<close>.\<close>

definition example_parsers :: parsers where
  "example_parsers =
     \<lparr>json_parse = (\<lambda>s. if s = ''{}'' then Some (JObj []) else None),
      form_parse = (\<lambda>s. JObj [])\<rparr>"

section \<open>Controllers\<close>

text \<open>
  The state of a controller: the database object, the request, the response, and the
  fields that the \<open>AuthController\<close> constructor sets.  \<open>new_controller\<close> is the
  constructor; the token it reads from the cookie is given.
\<close>

record controller =
  ctl_db :: database
  ctl_request :: request
  ctl_response :: response
  userId :: jsval
  token :: jsval
  cookieName :: string
  sessionTimeout :: int

definition new_controller :: "database \<Rightarrow> request \<Rightarrow> response \<Rightarrow> string \<Rightarrow> controller" where
  "new_controller d rq resp tok =
     \<lparr>ctl_db = d, ctl_request = rq, ctl_response = resp, userId = JNum 0, token = JStr tok,
      cookieName = ''simple_app_cookie'', sessionTimeout = 1000 * 60 * 60 * 24 * 14\<rparr>"

text \<open>
  \<open>this[name]\<close> on a \<open>ReportController\<close>: the own fields first (the database, the
  request, the response and the two models are objects, of which only the type matters
  here), then the methods of \<open>ReportController\<close>, \<open>AuthController\<close> and
  \<open>BaseController\<close> (a method is represented by its name), then \<open>Object.prototype\<close>.
\<close>

definition own_fields :: "controller \<Rightarrow> (string \<times> jsval) list" where
  "own_fields ctl =
     [(''db'', JObj []), (''request'', JObj []), (''response'', JObj []),
      (''userId'', userId ctl), (''token'', token ctl), (''cookieName'', JStr (cookieName ctl)),
      (''sessionTimeout'', JNum (sessionTimeout ctl)), (''authModel'', JObj []),
      (''model'', JObj [])]"

definition class_methods :: "string list" where
  "class_methods =
     [''constructor'', ''index'', ''orderStats'', ''topProducts'', ''recentOrders'',
      ''authenticate'', ''createSession'', ''deleteSession'', ''isAuthenticated'',
      ''deleteCookie'', ''_setUserAndToken'', ''_getToken'', ''_getSessionExpiration'',
      ''_generateToken'']"

definition member :: "controller \<Rightarrow> string \<Rightarrow> jsval" where
  "member ctl name =
     (case map_of (own_fields ctl) name of
        Some v \<Rightarrow> v
      | None \<Rightarrow>
          if name \<in> set class_methods then JFun name
          else Object_prototype (JObj (own_fields ctl)) name)"

subsection \<open>ReportController\<close>

text \<open>
  \<open>index\<close> reads the path parameter \<open>reportId\<close> through \<open>getParam\<close> and looks the
  member of that name up on the controller.  When the member is a function, \<open>index\<close>
  calls it and its outcome is the outcome of \<open>index\<close>; the model records which member
  is called.  Otherwise \<open>index\<close> raises the not-found error.
\<close>

datatype dispatch = Invokes string | Raises error

definition index :: "proto \<Rightarrow> controller \<Rightarrow> dispatch" where
  "index P ctl =
     (case getParam P (ctl_request ctl) ''reportId'' JNull of
        Inl e \<Rightarrow> Raises e
      | Inr reportId \<Rightarrow>
          if typeof (member ctl (js_String reportId)) = ''function''
          then Invokes (js_String reportId)
          else Raises (NotFoundException (Some ''Report not found'') None))"

subsection \<open>AuthController\<close>

text \<open>
  The runtime as far as the session code meets it: the clock (what \<open>Date.now()\<close> would
  return), the date parser behind \<open>new Date(text)\<close>, and the base64 text of the 64 random
  bytes that \<open>crypto.randomBytes\<close> delivers.
\<close>

record runtime =
  clock :: int
  dateParse :: "string \<Rightarrow> jsdate"
  randomBytes64 :: string

text \<open>The function object \<open>Date.now\<close>.\<close>

definition Date_now :: jsval where
  "Date_now = JFun ''function now() { [native code] }''"

text \<open>
  The operator \<open>+\<close>.  Objects, arrays and functions are first converted to their text.
  If one operand is then a string, the result is the concatenation of the two texts;
  otherwise it is the sum of the two numbers, \<open>NaN\<close> when one of them is not a number
  (\<open>undefined\<close> is not, \<open>null\<close> is 0, a boolean is 0 or 1).
\<close>

fun to_primitive :: "jsval \<Rightarrow> jsval" where
  "to_primitive (JArr xs) = JStr (js_String (JArr xs))"
| "to_primitive (JObj kvs) = JStr (js_String (JObj kvs))"
| "to_primitive (JFun src) = JStr (js_String (JFun src))"
| "to_primitive v = v"

text \<open>The number that a primitive other than a string stands for, \<open>None\<close> for \<open>NaN\<close>.\<close>

fun number_of :: "jsval \<Rightarrow> int option" where
  "number_of JNull = Some 0"
| "number_of (JBool b) = Some (if b then 1 else 0)"
| "number_of (JNum n) = Some n"
| "number_of v = None"

definition js_plus :: "jsval \<Rightarrow> jsval \<Rightarrow> jsval" where
  "js_plus a b =
     (let pa = to_primitive a; pb = to_primitive b
      in if typeof pa = ''string'' \<or> typeof pb = ''string''
         then JStr (js_String pa @ js_String pb)
         else case (number_of pa, number_of pb) of
                (Some x, Some y) \<Rightarrow> JNum (x + y)
              | _ \<Rightarrow> JNaN)"

text \<open>
  \<open>new Date(value)\<close>: a string goes to the date parser; anything else is taken as a
  number of milliseconds, valid within 8.64e15 of the epoch.
\<close>

definition new_Date :: "(string \<Rightarrow> jsdate) \<Rightarrow> jsval \<Rightarrow> jsdate" where
  "new_Date parse v =
     (case to_primitive v of
        JStr s \<Rightarrow> parse s
      | p \<Rightarrow> (case number_of p of
                 Some n \<Rightarrow> if - 8640000000000000 \<le> n \<and> n \<le> 8640000000000000
                           then DateMs n else InvalidDate
               | None \<Rightarrow> InvalidDate))"

text \<open>\<open>_getSessionExpiration\<close>: \<open>new Date(Date.now + this.sessionTimout)\<close>, as
  written: the function object is not called, and the field name is the one in the
  source.\<close>

definition getSessionExpiration :: "runtime \<Rightarrow> controller \<Rightarrow> jsdate" where
  "getSessionExpiration rtm ctl =
     new_Date (dateParse rtm) (js_plus Date_now (member ctl ''sessionTimout''))"

definition generateToken :: "runtime \<Rightarrow> string" where
  "generateToken rtm =
     replace_all (CHR '' '') '':''
       (replace_all (CHR 0x5C) ''|''
         (replace_all (CHR ''/'') ''_''
           (replace_all (CHR ''+'') ''-'' (randomBytes64 rtm))))"

text \<open>\<open>AuthModel.createSession\<close>: one \<open>execute\<close> call; the answer is whether the result
  header reports an affected row.\<close>

definition affected :: "jsval \<Rightarrow> bool" where
  "affected result =
     (case result of
        JObj kvs \<Rightarrow> (case map_of kvs ''affectedRows'' of Some (JNum n) \<Rightarrow> 0 < n | _ \<Rightarrow> False)
      | _ \<Rightarrow> False)"

definition AuthModel_createSession ::
  "driver \<Rightarrow> database \<Rightarrow> jsval \<Rightarrow> string \<Rightarrow> jsdate \<Rightarrow> (error + bool) \<times> database" where
  "AuthModel_createSession drv d uid tok expiresAt =
     (case execute drv d
        ''INSERT IGNORE INTO sessions (user_id, token, expires_at) VALUES (?, ?, ?) ON DUPLICATE KEY UPDATE token = ?, expires_at = ?''
        [PVal uid, PVal (JStr tok), PDate expiresAt, PVal (JStr tok), PDate expiresAt] of
        (Inl e, d') \<Rightarrow> (Inl e, d')
      | (Inr result, d') \<Rightarrow> (Inr (affected result), d'))"

definition createSession ::
  "runtime \<Rightarrow> driver \<Rightarrow> controller \<Rightarrow> jsval \<Rightarrow> (error + jsval) \<times> controller" where
  "createSession rtm drv ctl uid =
     (let tok = generateToken rtm;
          ctl1 = ctl\<lparr>token := JStr tok\<rparr>;
          expiresAt = getSessionExpiration rtm ctl1
      in case AuthModel_createSession drv (ctl_db ctl1) uid tok expiresAt of
           (Inl e, d') \<Rightarrow> (Inl e, ctl1\<lparr>ctl_db := d'\<rparr>)
         | (Inr ok, d') \<Rightarrow>
             if ok
             then (Inr (JObj [(''token'', JStr tok), (''userId'', uid)]),
                   ctl1\<lparr>ctl_db := d', userId := uid, token := JStr tok,
                        ctl_response :=
                          cookie (ctl_response ctl1) (cookieName ctl1) tok
                            [(''maxAge'', JNum (sessionTimeout ctl1)), (''secure'', JBool True),
                             (''sameSite'', JStr ''Lax'')]\<rparr>)
             else (Inl (AuthenticationException (Some ''Unable to create user session.'') None),
                   ctl1\<lparr>ctl_db := d'\<rparr>))"

text \<open>
  A runtime, a driver and a controller to evaluate the session code on: the clock stands
  at 1700000000000 ms, the date parser rejects the one text it is asked about here (it
  holds no date), and the store reports one affected row.
\<close>

definition example_runtime :: runtime where
  "example_runtime =
     \<lparr>clock = 1700000000000, dateParse = (\<lambda>s. InvalidDate), randomBytes64 = ''Zm9v+YmFy/cQ==''\<rparr>"

definition storing_driver :: driver where
  "storing_driver =
     \<lparr>connect_error = None, run = (\<lambda>sql params. Inr (JObj [(''affectedRows'', JNum 1)]))\<rparr>"

definition example_controller :: controller where
  "example_controller =
     new_controller (example_database\<lparr>connection := True\<rparr>)
       (example_request\<lparr>rq_params := [(''reportId'', JStr ''authenticate'')]\<rparr>) Response []"

section \<open>Properties of the sanitizers\<close>

subsection \<open>Stripping tags\<close>

lemma set_tl_dropWhile: "set (tl (dropWhile Q cs)) \<subseteq> set cs"
proof
  fix x assume "x \<in> set (tl (dropWhile Q cs))"
  then have "x \<in> set (dropWhile Q cs)"
    by (cases "dropWhile Q cs") auto
  then show "x \<in> set cs" by (rule set_dropWhileD)
qed

lemma set_stripHtmlTags: "set (stripHtmlTags s) \<subseteq> set s"
proof (induction s rule: stripHtmlTags.induct)
  case 1
  show ?case by simp
next
  case (2 c cs)
  then show ?case
    using set_tl_dropWhile [of "\<lambda>x. x \<noteq> CHR ''>''" cs] by auto
qed

lemma tagfree_stripHtmlTags: "tagfree (stripHtmlTags s)"
proof (induction s rule: stripHtmlTags.induct)
  case 1
  show ?case by simp
next
  case (2 c cs)
  then show ?case using set_stripHtmlTags [of cs] by auto
qed

lemma stripHtmlTags_tagfree: "tagfree s \<Longrightarrow> stripHtmlTags s = s"
  by (induction s) auto

lemma subseq_set: "subseq t s \<Longrightarrow> set t \<subseteq> set s"
proof
  fix x assume "subseq t s" and "x \<in> set t"
  then show "x \<in> set s" using list_emb_set [of "(=)" t s x] by auto
qed

lemma tagfree_subseq: "subseq t s \<Longrightarrow> tagfree s \<Longrightarrow> tagfree t"
proof (induction rule: list_emb.induct)
  case (list_emb_Nil ys)
  then show ?case by simp
next
  case (list_emb_Cons xs ys y)
  then show ?case by simp
next
  case (list_emb_Cons2 x y xs ys)
  have "set xs \<subseteq> set ys"
    by (rule subseq_set) (rule list_emb_Cons2.hyps(2))
  with list_emb_Cons2 show ?case by auto
qed

lemma subseq_js_trim: "subseq (js_trim s) s"
proof -
  let ?t = "dropWhile is_space s"
  have "suffix (dropWhile is_space (rev ?t)) (rev ?t)"
    by (rule suffix_dropWhile)
  then have "prefix (js_trim s) ?t"
    by (simp add: js_trim_def suffix_to_prefix)
  then have 1: "subseq (js_trim s) ?t"
    by (rule prefix_imp_subseq)
  have "suffix ?t s"
    by (rule suffix_dropWhile)
  then have 2: "subseq ?t s"
    by (rule suffix_imp_subseq)
  from 1 2 show ?thesis
    by (rule subseq_order.order_trans)
qed

lemma subseq_notin: "subseq t s \<Longrightarrow> c \<notin> set s \<Longrightarrow> c \<notin> set t"
  using subseq_set [of t s] by auto

subsection \<open>What one pass of \<open>sanitizeString\<close> establishes\<close>

lemma sanitizeString_facts:
  assumes "y = sanitizeString (JStr x) opts"
  shows "CHR 0x00 \<notin> set y"
    and "\<not> opt_allowHtml opts \<Longrightarrow> tagfree y"
    and "opt_maxLength opts = Some n \<Longrightarrow> n \<noteq> 0 \<Longrightarrow> length y \<le> n"
proof -
  define s1 where "s1 = (if opt_trim opts then js_trim x else x)"
  define s2 where "s2 = (if \<not> opt_allowHtml opts then stripHtmlTags s1 else s1)"
  define s3 where "s3 = filter (\<lambda>c. c \<noteq> CHR 0x00) s2"
  have y: "y = (case opt_maxLength opts of None \<Rightarrow> s3
              | Some n \<Rightarrow> if n \<noteq> 0 \<and> length s3 > n then take n s3 else s3)"
    unfolding assms
    by (cases "opt_maxLength opts")
       (simp_all add: sanitizeString_def s1_def s2_def s3_def Let_def)
  have sub: "subseq y s3"
  proof (cases "opt_maxLength opts")
    case None
    then show ?thesis by (simp add: y)
  next
    case (Some n)
    have "subseq (take n s3) s3"
      by (rule prefix_imp_subseq) (rule take_is_prefix)
    then show ?thesis by (simp add: y Some)
  qed
  have "CHR 0x00 \<notin> set s3" by (simp add: s3_def)
  then show "CHR 0x00 \<notin> set y" by (rule subseq_notin [OF sub])
  show "tagfree y" if "\<not> opt_allowHtml opts"
  proof -
    have "tagfree s2" using that by (simp add: s2_def tagfree_stripHtmlTags)
    then have "tagfree s3" unfolding s3_def by (rule tagfree_subseq [OF subseq_filter_left])
    then show ?thesis by (rule tagfree_subseq [OF sub])
  qed
  show "length y \<le> n" if "opt_maxLength opts = Some n" "n \<noteq> 0"
    using that unfolding y by auto
qed

lemma sanitizeString_of_clean:
  assumes nul: "CHR 0x00 \<notin> set t"
    and tag: "\<not> opt_allowHtml opts \<Longrightarrow> tagfree t"
    and len: "\<And>n. opt_maxLength opts = Some n \<Longrightarrow> n \<noteq> 0 \<Longrightarrow> length t \<le> n"
    and t: "t = (if opt_trim opts then js_trim y else y)"
  shows "sanitizeString (JStr y) opts = t"
proof -
  have s2: "\<not> opt_allowHtml opts \<Longrightarrow> stripHtmlTags t = t"
    using tag by (simp add: stripHtmlTags_tagfree)
  have s3: "filter (\<lambda>c. c \<noteq> CHR 0x00) t = t"
    using nul by (auto simp add: filter_id_conv)
  show ?thesis
  proof (cases "opt_maxLength opts")
    case None
    then show ?thesis by (simp add: sanitizeString_def Let_def t [symmetric] s2 s3)
  next
    case (Some n)
    then show ?thesis using len [OF Some]
      by (simp add: sanitizeString_def Let_def t [symmetric] s2 s3)
  qed
qed

text \<open>
  Claim C8, as the code has it.  Applying \<open>sanitizeString\<close> to its own output does
  nothing but trim it: with trimming enabled the second result is the first one trimmed,
  with trimming disabled it is the first one.  So the function is idempotent at an input
  exactly when its first result has no leading or trailing white space, or trimming is
  disabled; a third application never changes the second result.
\<close>

theorem sanitizeString_twice:
  "sanitizeString (JStr (sanitizeString (JStr x) opts)) opts =
     (if opt_trim opts then js_trim (sanitizeString (JStr x) opts)
      else sanitizeString (JStr x) opts)"
proof -
  define y where "y = sanitizeString (JStr x) opts"
  define t where "t = (if opt_trim opts then js_trim y else y)"
  have sub: "subseq t y"
    by (simp add: t_def subseq_js_trim)
  have "CHR 0x00 \<notin> set t"
    by (rule subseq_notin [OF sub]) (rule sanitizeString_facts(1) [OF y_def])
  moreover have "tagfree t" if "\<not> opt_allowHtml opts"
    by (rule tagfree_subseq [OF sub]) (rule sanitizeString_facts(2) [OF y_def that])
  moreover have "length t \<le> n" if "opt_maxLength opts = Some n" "n \<noteq> 0" for n
    using sanitizeString_facts(3) [OF y_def that] list_emb_length [OF sub] by simp
  ultimately have "sanitizeString (JStr y) opts = t"
    by (rule sanitizeString_of_clean) (simp_all add: t_def)
  then show ?thesis by (simp add: y_def t_def)
qed

theorem sanitizeString_twice_witness:
  "sanitizeString (JStr (sanitizeString (JStr ''<i>a</i> b '') no_options)) no_options = ''a b''
   \<and> sanitizeString
        (JStr (sanitizeString (JStr ''<b> x'') (no_options\<lparr>opt_trim := False\<rparr>)))
        (no_options\<lparr>opt_trim := False\<rparr>) = '' x''"
proof -
  have 1: "sanitizeString (JStr ''<i>a</i> b '') no_options = ''a b''"
    by code_simp
  have 2: "sanitizeString (JStr ''<b> x'') (no_options\<lparr>opt_trim := False\<rparr>) = '' x''"
    by code_simp
  have 3: "js_trim ''a b'' = ''a b''"
    by code_simp
  have 4: "opt_trim no_options"
    by (simp add: no_options_def)
  show ?thesis
    using sanitizeString_twice [of "''<i>a</i> b ''" no_options]
      sanitizeString_twice [of "''<b> x''" "no_options\<lparr>opt_trim := False\<rparr>"]
    by (simp add: 1 2 3 4)
qed

text \<open>
  Claim C8 as stated fails: with the default options \<open><b> x\<close> is sanitized to \<open> x\<close>
  (the tag is stripped after the trim, which uncovers a leading space), and sanitizing
  that gives \<open>x\<close>.
\<close>

theorem sanitizeString_not_idempotent:
  "sanitizeString (JStr (sanitizeString (JStr ''<b> x'') no_options)) no_options
     \<noteq> sanitizeString (JStr ''<b> x'') no_options"
proof -
  have 1: "sanitizeString (JStr ''<b> x'') no_options = '' x''"
    by code_simp
  have 2: "sanitizeString (JStr '' x'') no_options = ''x''"
    by code_simp
  show ?thesis by (simp add: 1 2)
qed

subsection \<open>\<open>sanitizeBoolean\<close>\<close>

text \<open>
  Claim C7, as the code has it by design.  For \<open>null\<close> and \<open>undefined\<close> the result is
  \<open>options.default\<close> when that is truthy and \<open>null\<close> otherwise; boolean \<open>true\<close> gives
  true; a string gives true exactly when its lower-cased text is \<open>true\<close>, \<open>1\<close> or
  \<open>yes\<close>; a value that is neither null, undefined, a boolean nor a string gives its
  truthiness.  (Boolean \<open>false\<close> is left out of this statement.)
\<close>

theorem sanitizeBoolean_cases:
  "sanitizeBoolean JNull opts = (if truthy (opt_default opts) then opt_default opts else JNull)
   \<and> sanitizeBoolean JUndefined opts
       = (if truthy (opt_default opts) then opt_default opts else JNull)
   \<and> sanitizeBoolean (JBool True) opts = JBool True
   \<and> sanitizeBoolean (JStr s) opts
       = JBool (toLowerCase s = ''true'' \<or> toLowerCase s = ''1'' \<or> toLowerCase s = ''yes'')
   \<and> (typeof v = ''number'' \<or> typeof v = ''function'' \<or> (typeof v = ''object'' \<and> v \<noteq> JNull)
        \<longrightarrow> sanitizeBoolean v opts = JBool (truthy v))"
proof -
  have "typeof v = ''number'' \<or> typeof v = ''function'' \<or> (typeof v = ''object'' \<and> v \<noteq> JNull)
        \<longrightarrow> sanitizeBoolean v opts = JBool (truthy v)"
    by (cases v) (simp_all add: sanitizeBoolean_def)
  then show ?thesis
    by (simp add: sanitizeBoolean_def)
qed

theorem sanitizeBoolean_cases_witness:
  "sanitizeBoolean (JStr ''YES'') no_options = JBool True
   \<and> sanitizeBoolean (JStr ''no'') no_options = JBool False
   \<and> sanitizeBoolean (JNum 0) no_options = JBool False
   \<and> sanitizeBoolean (JArr []) no_options = JBool True
   \<and> sanitizeBoolean JNull (no_options\<lparr>opt_default := JBool True\<rparr>) = JBool True"
proof -
  have l: "toLowerCase ''YES'' = ''yes''" "toLowerCase ''no'' = ''no''"
    by code_simp+
  show ?thesis
    using sanitizeBoolean_cases [of no_options "''YES''" "JNum 0"]
      sanitizeBoolean_cases [of no_options "''no''" "JArr []"]
      sanitizeBoolean_cases [of "no_options\<lparr>opt_default := JBool True\<rparr>" "''no''" "JNum 0"]
    by (simp add: l)
qed

text \<open>
  Claim C7 as stated fails: the number 1 is neither boolean \<open>true\<close> nor one of the three
  strings and the result is true; and with the default \<open>false\<close> a \<open>null\<close> input gives
  \<open>null\<close>, not the default.
\<close>

theorem sanitizeBoolean_counterexample:
  "sanitizeBoolean (JNum 1) no_options = JBool True
   \<and> sanitizeBoolean JNull (no_options\<lparr>opt_default := JBool False\<rparr>) = JNull"
  by (simp add: sanitizeBoolean_def)

text \<open>The branch for booleans returns true whatever the boolean is.\<close>

lemma sanitizeBoolean_of_false: "sanitizeBoolean (JBool False) opts = JBool True"
  by (simp add: sanitizeBoolean_def)

section \<open>Properties of the request normalizer\<close>

subsection \<open>\<open>Request.sanitize\<close> as one pass\<close>









subsection \<open>The typed lookup of an absent key\<close>

text \<open>
  Claim C10 as stated fails: a key that is absent from the query, from the path
  parameters and from the body does not always give the empty string.  \<open>getValue\<close>
  tests each source with \<open>source.hasOwnProperty(key)\<close>, and that call raises a
  \<open>TypeError\<close> when the body is \<open>null\<close> (the JSON text \<open>null\<close>), when the query
  has a parameter named \<open>hasOwnProperty\<close>, and when the body is a form-encoded one, an
  object without prototype, which inherits no such function.  In each of the three
  requests below the key \<open>name\<close> is in none of the sources.
\<close>

theorem getSanitizedInput_absent_key_raises:
  "getSanitizedInput Object_prototype (\<lambda>t v opts. v) (example_request\<lparr>rq_body := JNull\<rparr>)
      ''name'' (JStr ''fallback'') ''string'' no_options = Inl TypeError
   \<and> getSanitizedInput Object_prototype (\<lambda>t v opts. v)
      (example_request\<lparr>rq_query := [(''hasOwnProperty'', JStr ''1'')]\<rparr>)
      ''name'' (JStr ''fallback'') ''string'' no_options = Inl TypeError
   \<and> getSanitizedInput
      (\<lambda>obj k. if obj = JObj [(''email'', JStr ''a@b.c'')] then JUndefined
                else Object_prototype obj k)
      (\<lambda>t v opts. v)
      (example_request\<lparr>rq_body := JObj [(''email'', JStr ''a@b.c'')]\<rparr>)
      ''name'' (JStr ''fallback'') ''string'' no_options = Inl TypeError"
  by (simp add: getSanitizedInput_def getValue_def hasOwnProperty_def js_get_def
      Object_prototype_def builtin_hasOwnProperty_def example_request_def)

text \<open>
  Claim C10, as the code has it.  Let the key be absent from the query, from the path
  parameters and from the body.  When each of the three sources can be asked (it is not
  \<open>null\<close> or \<open>undefined\<close> and its member \<open>hasOwnProperty\<close> is the built-in
  function, inherited and not shadowed), \<open>getSanitizedInput\<close> with the type \<open>string\<close>,
  in any letter case, returns the empty string whatever the default is; otherwise it
  raises a \<open>TypeError\<close>.
\<close>

theorem getSanitizedInput_absent_key:
  assumes "own_property (JObj (rq_query rq)) key = None"
    and "own_property (JObj (rq_params rq)) key = None"
    and "own_property (rq_body rq) key = None"
    and "toLowerCase ty = ''string''"
  shows "getSanitizedInput P others rq key d ty opts =
     (if js_get P (JObj (rq_query rq)) ''hasOwnProperty'' = Inr builtin_hasOwnProperty
         \<and> js_get P (JObj (rq_params rq)) ''hasOwnProperty'' = Inr builtin_hasOwnProperty
         \<and> js_get P (rq_body rq) ''hasOwnProperty'' = Inr builtin_hasOwnProperty
      then Inr (JStr []) else Inl TypeError)"
proof -
  have h: "hasOwnProperty P obj key
      = (if js_get P obj ''hasOwnProperty'' = Inr builtin_hasOwnProperty then Inr False
         else Inl TypeError)"
    if "own_property obj key = None" for obj
    using that by (auto simp add: hasOwnProperty_def js_get_def split: option.splits)
  show ?thesis
    by (simp add: getSanitizedInput_def getValue_def h [OF assms(1)] h [OF assms(2)]
        h [OF assms(3)] InputSanitizer_sanitize_def assms(4) sanitizeString_def)
qed

theorem getSanitizedInput_absent_key_witness:
  "getSanitizedInput Object_prototype (\<lambda>t v opts. v) example_request ''name''
      (JStr ''fallback'') ''string'' no_options = Inr (JStr [])
   \<and> getSanitizedInput Object_prototype (\<lambda>t v opts. v)
        (example_request\<lparr>rq_body := JStr ''raw text''\<rparr>) ''name''
        (JStr ''fallback'') ''STRING'' no_options = Inr (JStr [])"
proof -
  let ?rq = "example_request\<lparr>rq_body := JStr ''raw text''\<rparr>"
  have 1: "own_property (JObj (rq_query example_request)) ''name'' = None"
     "own_property (JObj (rq_query ?rq)) ''name'' = None"
    by (simp_all add: example_request_def)
  have 2: "own_property (JObj (rq_params example_request)) ''name'' = None"
     "own_property (JObj (rq_params ?rq)) ''name'' = None"
    by (simp_all add: example_request_def)
  have 3: "own_property (rq_body example_request) ''name'' = None"
    by (simp add: example_request_def)
  have 5: "own_property (rq_body ?rq) ''name'' = None"
    by (simp add: array_index_def is_digit_def)
  have 4: "toLowerCase ''string'' = ''string''" "toLowerCase ''STRING'' = ''string''"
    by code_simp+
  have i: "array_index ''hasOwnProperty'' = None"
    by (simp add: array_index_def is_digit_def)
  have q: "js_get Object_prototype (JObj (rq_query example_request)) ''hasOwnProperty''
      = Inr builtin_hasOwnProperty"
    by (simp add: js_get_def Object_prototype_def example_request_def)
  have p: "js_get Object_prototype (JObj (rq_params example_request)) ''hasOwnProperty''
      = Inr builtin_hasOwnProperty"
    by (simp add: js_get_def Object_prototype_def example_request_def)
  have b: "js_get Object_prototype (rq_body example_request) ''hasOwnProperty''
      = Inr builtin_hasOwnProperty"
    by (simp add: js_get_def Object_prototype_def example_request_def)
  have t: "js_get Object_prototype (JStr ''raw text'') ''hasOwnProperty''
      = Inr builtin_hasOwnProperty"
    by (simp add: js_get_def Object_prototype_def i)
  show ?thesis
    using getSanitizedInput_absent_key [OF 1(1) 2(1) 3 4(1), of Object_prototype "\<lambda>t v opts. v"
        "JStr ''fallback''" no_options]
      getSanitizedInput_absent_key [OF 1(2) 2(2) 5 4(2), of Object_prototype "\<lambda>t v opts. v"
        "JStr ''fallback''" no_options]
    by (simp add: q p b t)
qed

section \<open>Properties of the data access layer\<close>

lemma sanitizeParams_flagged:
  "\<exists>p \<in> set params. flagged p \<Longrightarrow>
     sanitizeParams params = Inl (PlainError ''Potential SQL injection detected in parameter value'')"
proof (induction params rule: sanitizeParams.induct)
  case 1
  then show ?case by simp
next
  case (2 v ps)
  then show ?case by (cases "typeof v = ''string'' \<and> detectSqlInjection v") auto
next
  case (3 d ps)
  then show ?case by auto
qed

lemma sanitizeParams_clean:
  "\<forall>p \<in> set params. \<not> flagged p \<Longrightarrow> sanitizeParams params = Inr params"
  by (induction params rule: sanitizeParams.induct) auto

lemma query_flagged:
  assumes "\<exists>p \<in> set params. flagged p"
  shows "\<exists>e db'. query drv db sql params = (Inl e, db') \<and> sent db' = sent db"
proof (cases "if \<not> connection db then connect drv db else Inr db")
  case (Inl e)
  then show ?thesis by (simp add: query_def)
next
  case (Inr db1)
  then have "sent db1 = sent db"
    by (auto simp add: connect_def split: if_splits option.splits)
  then show ?thesis
    using Inr sanitizeParams_flagged [OF assms] by (simp add: query_def)
qed

lemma query_flagged_connected:
  assumes "\<exists>p \<in> set params. flagged p" and "connection db"
  shows "query drv db sql params
     = (Inl (PlainError ''Potential SQL injection detected in parameter value''), db)"
  using assms(2) sanitizeParams_flagged [OF assms(1)] by (simp add: query_def)

lemma query_clean_connected:
  assumes "\<forall>p \<in> set params. \<not> flagged p" and "connection db"
  shows "query drv db sql params = (run drv sql params, db\<lparr>sent := sent db @ [(sql, params)]\<rparr>)"
  using assms(2) sanitizeParams_clean [OF assms(1)] by (simp add: query_def)

lemma detect_drop_table: "detectSqlInjection (JStr ''1; DROP TABLE users'')"
  by code_simp

lemma detect_or_tautology:
  "detectSqlInjection
     (JStr [CHR 0x27, CHR '' '', CHR ''O'', CHR ''R'', CHR '' '', CHR ''1'', CHR ''='', CHR ''1''])"
  by code_simp

lemma detect_not_obrien:
  "\<not> detectSqlInjection
     (JStr [CHR ''O'', CHR 0x27, CHR ''B'', CHR ''r'', CHR ''i'', CHR ''e'', CHR ''n''])"
  by code_simp

text \<open>
  Claim C2.  Whenever some string parameter of a \<open>query\<close> or \<open>execute\<close> call is
  flagged by the heuristic, wherever it stands in the list, the call ends in an error and
  the statements handed to the driver are the ones handed over before the call; on an
  open connection the error is the one of the parameter check.  The heuristic flags
  \<open>1; DROP TABLE users\<close> and \<open>' OR 1=1\<close> and does not flag \<open>O'Brien\<close>.
\<close>

theorem flagged_parameter_aborts_call:
  "((\<exists>p \<in> set params. flagged p) \<longrightarrow>
      (\<exists>e db'. query drv db sql params = (Inl e, db') \<and> sent db' = sent db)
    \<and> (\<exists>e db'. execute drv db sql params = (Inl e, db') \<and> sent db' = sent db)
    \<and> (connection db \<longrightarrow>
         query drv db sql params
           = (Inl (PlainError ''Potential SQL injection detected in parameter value''), db)))
   \<and> detectSqlInjection (JStr ''1; DROP TABLE users'')
   \<and> detectSqlInjection
       (JStr [CHR 0x27, CHR '' '', CHR ''O'', CHR ''R'', CHR '' '', CHR ''1'', CHR ''='', CHR ''1''])
   \<and> \<not> detectSqlInjection
       (JStr [CHR ''O'', CHR 0x27, CHR ''B'', CHR ''r'', CHR ''i'', CHR ''e'', CHR ''n''])"
proof -
  have "\<exists>e db'. query drv db sql params = (Inl e, db') \<and> sent db' = sent db"
    if "\<exists>p \<in> set params. flagged p"
    by (rule query_flagged [OF that])
  moreover have "query drv db sql params
      = (Inl (PlainError ''Potential SQL injection detected in parameter value''), db)"
    if "\<exists>p \<in> set params. flagged p" "connection db"
    by (rule query_flagged_connected [OF that])
  ultimately show ?thesis
    using detect_drop_table detect_or_tautology detect_not_obrien
    by (simp add: execute_def)
qed

theorem flagged_parameter_aborts_call_witness:
  "query example_driver example_database ''SELECT * FROM users WHERE id = ? AND name = ?''
      [PVal (JNum 7), PVal (JStr ''1; DROP TABLE users'')]
     = (Inl (PlainError ''Potential SQL injection detected in parameter value''),
        example_database\<lparr>connection := True\<rparr>)
   \<and> sent (example_database\<lparr>connection := True\<rparr>) = []"
proof -
  let ?db = "example_database\<lparr>connection := True\<rparr>"
  let ?ps = "[PVal (JNum 7), PVal (JStr ''1; DROP TABLE users'')]"
  have f: "\<exists>p \<in> set ?ps. flagged p"
    using detect_drop_table by simp
  have c: "connection ?db" by simp
  have 1: "query example_driver ?db ''SELECT * FROM users WHERE id = ? AND name = ?'' ?ps
      = (Inl (PlainError ''Potential SQL injection detected in parameter value''), ?db)"
    using flagged_parameter_aborts_call
      [of ?ps example_driver ?db "''SELECT * FROM users WHERE id = ? AND name = ?''"] f c
    by blast
  have 2: "query example_driver example_database ''SELECT * FROM users WHERE id = ? AND name = ?'' ?ps
      = query example_driver ?db ''SELECT * FROM users WHERE id = ? AND name = ?'' ?ps"
    by (simp add: query_def connect_def example_database_def example_driver_def)
  show ?thesis
    using 1 2 by (simp add: example_database_def)
qed

text \<open>Without a flagged parameter, on an open connection, the statement and its parameters
  reach the driver as given.\<close>

lemma unflagged_parameters_reach_driver:
  "\<forall>p \<in> set params. \<not> flagged p \<Longrightarrow> connection db \<Longrightarrow>
     snd (execute drv db sql params) = db\<lparr>sent := sent db @ [(sql, params)]\<rparr>"
  by (simp add: execute_def query_clean_connected)

subsection \<open>The listing statements\<close>

lemma readAll_sent:
  "connection db \<Longrightarrow>
     sent (snd (ProductsModel_readAll drv db offset limit))
       = sent db @ [(''SELECT * FROM products LIMIT '' @ js_String offset @ '', '' @ js_String limit, [])]
   \<and> sent (snd (OrdersModel_readAll drv db offset limit))
       = sent db @ [(''SELECT * FROM orders LIMIT '' @ js_String offset @ '', '' @ js_String limit, [])]"
  by (simp add: ProductsModel_readAll_def OrdersModel_readAll_def query_def)

text \<open>
  Claim C3, evaluated on the code.  With the pagination values (0, 10) and (5, 20) the
  listing operations hand two different statement texts to the driver, each with the
  values printed into it and with no bound parameter.
\<close>

theorem readAll_interpolates_pagination:
  "sent (snd (ProductsModel_readAll example_driver example_database (JNum 0) (JNum 10)))
     = [(''SELECT * FROM products LIMIT 0, 10'', [])]
   \<and> sent (snd (ProductsModel_readAll example_driver example_database (JNum 5) (JNum 20)))
     = [(''SELECT * FROM products LIMIT 5, 20'', [])]
   \<and> sent (snd (OrdersModel_readAll example_driver example_database (JNum 0) (JNum 10)))
     = [(''SELECT * FROM orders LIMIT 0, 10'', [])]
   \<and> sent (snd (OrdersModel_readAll example_driver example_database (JNum 5) (JNum 20)))
     = [(''SELECT * FROM orders LIMIT 5, 20'', [])]"
proof -
  have s: "show_int 0 = ''0''" "show_int 10 = ''10''" "show_int 5 = ''5''" "show_int 20 = ''20''"
    by code_simp+
  show ?thesis
    by (simp add: ProductsModel_readAll_def OrdersModel_readAll_def query_def connect_def
        example_database_def example_driver_def s)
qed

section \<open>Properties of the router\<close>

subsection \<open>Binding the capture groups to the parameter names\<close>

lemma map_of_put_property_at:
  "map_of (put_property ps k v) x = (if x = k then Some v else map_of ps x)"
  by (induction ps) auto

lemma map_of_put_property: "map_of (put_property ps k v) = (map_of ps)(k \<mapsto> v)"
  by (rule ext) (simp add: map_of_put_property_at)

lemma put_property_fresh:
  "k \<notin> fst ` set ps \<Longrightarrow> property_index k = None \<Longrightarrow> put_property ps k v = ps @ [(k, v)]"
  by (induction ps) (auto simp add: precedes_def)

lemma map_of_assign:
  assumes "map_of ps ''__proto__'' = None"
  shows "map_of (assign ps k v) = (if k = ''__proto__'' then map_of ps else (map_of ps)(k \<mapsto> v))"
  using assms by (simp add: assign_def map_of_put_property)

lemma map_of_assign_all:
  "map_of init ''__proto__'' = None \<Longrightarrow>
     map_of (foldl (\<lambda>params (k, v). assign params k v) init kvs) x
       = (if x = ''__proto__'' then None else (map_of init ++ map_of (rev kvs)) x)"
proof (induction kvs arbitrary: init)
  case Nil
  then show ?case by simp
next
  case (Cons kv kvs)
  obtain k v where kv: "kv = (k, v)" by (cases kv)
  have a: "map_of (assign init k v)
      = (if k = ''__proto__'' then map_of init else (map_of init)(k \<mapsto> v))"
    using Cons.prems by (rule map_of_assign)
  then have "map_of (assign init k v) ''__proto__'' = None"
    using Cons.prems by simp
  from Cons.IH [OF this]
  have "map_of (foldl (\<lambda>params (k, v). assign params k v) init (kv # kvs)) x
      = (if x = ''__proto__'' then None
         else (map_of (assign init k v) ++ map_of (rev kvs)) x)"
    by (simp add: kv)
  also have "\<dots> = (if x = ''__proto__'' then None
         else (map_of init ++ map_of (rev (kv # kvs))) x)"
    by (simp add: a kv map_add_def split: option.splits)
  finally show ?case .
qed

lemma assign_all_distinct:
  "distinct (map fst (init @ kvs)) \<Longrightarrow> ''__proto__'' \<notin> fst ` set kvs \<Longrightarrow>
   \<forall>k \<in> fst ` set kvs. property_index k = None \<Longrightarrow>
     foldl (\<lambda>params (k, v). assign params k v) init kvs = init @ kvs"
proof (induction kvs arbitrary: init)
  case Nil
  show ?case by simp
next
  case (Cons kv kvs)
  obtain k v where kv: "kv = (k, v)" by (cases kv)
  from Cons.prems(1) have fresh: "k \<notin> fst ` set init"
    by (auto simp add: kv)
  from Cons.prems(2) have np: "k \<noteq> ''__proto__''"
    by (auto simp add: kv)
  from Cons.prems(3) have ni: "property_index k = None"
    by (simp add: kv)
  have a: "assign init k v = init @ [(k, v)]"
    using np by (simp add: assign_def put_property_fresh [OF fresh ni])
  from Cons.prems(1) have 1: "distinct (map fst ((init @ [(k, v)]) @ kvs))"
    by (simp add: kv)
  from Cons.prems(2) have 2: "''__proto__'' \<notin> fst ` set kvs"
    by simp
  from Cons.prems(3) have 3: "\<forall>k \<in> fst ` set kvs. property_index k = None"
    by simp
  from Cons.IH [OF 1 2 3] show ?case
    by (simp add: kv a)
qed

lemma bind_params_zip:
  "bind_params ks groups
     = foldl (\<lambda>params (k, v). assign params k v) []
         (zip ks (map (match_group groups) [0 ..< length ks]))"
proof -
  have z: "zip ks (map (match_group groups) [0 ..< length ks])
      = map (\<lambda>i. (ks ! i, match_group groups i)) [0 ..< length ks]"
    by (intro nth_equalityI) simp_all
  have "bind_params ks groups
      = foldl (\<lambda>params (k, v). assign params k v) []
          (map (\<lambda>i. (ks ! i, match_group groups i)) [0 ..< length ks])"
    by (simp add: bind_params_def foldl_map)
  then show ?thesis by (simp only: z)
qed

lemma bind_params_lookup:
  "map_of (bind_params ks groups) k
     = (if k = ''__proto__'' then None
        else map_of (rev (zip ks (map (match_group groups) [0 ..< length ks]))) k)"
proof -
  have "map_of ([] :: (string \<times> jsval) list) ''__proto__'' = None"
    by simp
  from map_of_assign_all [OF this] show ?thesis
    by (simp only: bind_params_zip) simp
qed

lemma bind_params_distinct:
  assumes "distinct ks" and "''__proto__'' \<notin> set ks"
    and "\<forall>k \<in> set ks. property_index k = None"
  shows "bind_params ks groups = zip ks (map (match_group groups) [0 ..< length ks])"
proof -
  let ?kvs = "zip ks (map (match_group groups) [0 ..< length ks])"
  have f: "map fst ?kvs = ks"
    by simp
  have 1: "distinct (map fst ([] @ ?kvs))"
    using assms(1) by (simp only: append_Nil f)
  have s: "fst ` set ?kvs = set ks"
    using f by (metis set_map)
  have 2: "''__proto__'' \<notin> fst ` set ?kvs"
    unfolding s by (rule assms(2))
  have 3: "\<forall>k \<in> fst ` set ?kvs. property_index k = None"
    unfolding s by (rule assms(3))
  from assign_all_distinct [OF 1 2 3] show ?thesis
    by (simp only: bind_params_zip) simp
qed

subsection \<open>Registration keeps the order\<close>

lemma map_of_push_route:
  "map_of (push_route al m r) m'
     = (if m' = m then map_option (\<lambda>rs. rs @ [r]) (map_of al m) else map_of al m')"
  by (induction al m r rule: push_route.induct) auto

lemma compiles_captured:
  assumes "compiles E g"
  shows "pathToRegex E (reg_path g) = Inr (captured E g)"
proof -
  from assms obtain re where re: "pathToRegex E (reg_path g) = Inr re"
    by (auto simp add: compiles_def split: sum.splits)
  have "captured E g = re"
    by (rule ext) (simp add: captured_def re)
  with re show ?thesis by simp
qed

lemma register_lookup:
  assumes "map_of (routes rt) (verb_method (reg_verb g)) = Some rs" and "compiles E g"
  shows "\<exists>rt'. register E rt g = Inr rt'
     \<and> (\<forall>m. map_of (routes rt') m
          = (if m = verb_method (reg_verb g) then Some (rs @ [mk_route E g])
             else map_of (routes rt) m))"
  using assms(1) compiles_captured [OF assms(2)]
  by (cases "reg_verb g")
     (simp_all add: register_def get_def post_def put_def delete_def patch_def addRoute_def
        map_of_push_route mk_route_def)

lemma register_all_lookup:
  assumes "\<forall>v. map_of (routes rt) (verb_method v) \<noteq> None"
    and "\<forall>g \<in> set gs. compiles E g"
  shows "\<exists>rt'. register_all E rt gs = Inr rt'
     \<and> (\<forall>m. map_of (routes rt') m
          = map_option (\<lambda>rs. rs @ map (mk_route E) (filter (\<lambda>g. verb_method (reg_verb g) = m) gs))
              (map_of (routes rt) m))"
  using assms
proof (induction gs arbitrary: rt)
  case Nil
  show ?case by (simp add: option.map_ident)
next
  case (Cons g gs)
  from Cons.prems(1) obtain rs where rs: "map_of (routes rt) (verb_method (reg_verb g)) = Some rs"
    by auto
  from Cons.prems(2) have cg: "compiles E g" and cgs: "\<forall>g \<in> set gs. compiles E g"
    by simp_all
  from register_lookup [OF rs cg] obtain rt1 where rt1: "register E rt g = Inr rt1"
    and l1: "\<And>m. map_of (routes rt1) m
          = (if m = verb_method (reg_verb g) then Some (rs @ [mk_route E g])
             else map_of (routes rt) m)"
    by auto
  have "\<forall>v. map_of (routes rt1) (verb_method v) \<noteq> None"
    using Cons.prems(1) by (simp add: l1)
  from Cons.IH [OF this cgs] obtain rt' where rt': "register_all E rt1 gs = Inr rt'"
    and l': "\<And>m. map_of (routes rt') m
          = map_option (\<lambda>rs. rs @ map (mk_route E) (filter (\<lambda>g. verb_method (reg_verb g) = m) gs))
              (map_of (routes rt1) m)"
    by auto
  show ?case
  proof (intro exI [of _ rt'] conjI allI)
    show "register_all E rt (g # gs) = Inr rt'"
      by (simp add: rt1 rt')
    fix m
    show "map_of (routes rt') m
        = map_option (\<lambda>rs. rs @ map (mk_route E) (filter (\<lambda>g. verb_method (reg_verb g) = m) (g # gs)))
            (map_of (routes rt) m)"
      by (cases "m = verb_method (reg_verb g)") (simp_all add: l' l1 rs)
  qed
qed

lemma Router_lookup:
  "map_of (routes Router) m
     = (if m \<in> set [''GET'', ''POST'', ''PUT'', ''DELETE'', ''PATCH''] then Some [] else None)"
  by (simp add: Router_def)

lemma verb_method_five:
  "verb_method v \<in> set [''GET'', ''POST'', ''PUT'', ''DELETE'', ''PATCH'']"
  by (cases v) simp_all

lemma registered_routes:
  assumes "\<forall>g \<in> set regs. compiles E g"
  shows "\<exists>rt. register_all E Router regs = Inr rt
     \<and> (\<forall>m. map_of (routes rt) m
          = (if m \<in> set [''GET'', ''POST'', ''PUT'', ''DELETE'', ''PATCH'']
             then Some (map (mk_route E) (filter (\<lambda>g. verb_method (reg_verb g) = m) regs))
             else None))"
proof -
  have "\<forall>v. map_of (routes Router) (verb_method v) \<noteq> None"
    using verb_method_five by (simp only: Router_lookup) simp
  from register_all_lookup [OF this assms] obtain rt
    where rt: "register_all E Router regs = Inr rt"
    and l: "\<And>m. map_of (routes rt) m
          = map_option (\<lambda>rs. rs @ map (mk_route E) (filter (\<lambda>g. verb_method (reg_verb g) = m) regs))
              (map_of (routes Router) m)"
    by auto
  have "map_of (routes rt) m
      = (if m \<in> set [''GET'', ''POST'', ''PUT'', ''DELETE'', ''PATCH'']
         then Some (map (mk_route E) (filter (\<lambda>g. verb_method (reg_verb g) = m) regs))
         else None)" for m
    by (simp only: l Router_lookup) simp
  with rt show ?thesis by auto
qed

lemma first_match_find:
  "first_match (map (mk_route E) (filter Q regs)) p
     = (case find (\<lambda>g. Q g \<and> captured E g p \<noteq> None) regs of
          None \<Rightarrow> None
        | Some g \<Rightarrow>
            Some \<lparr>res_controller = reg_controller g, res_action = reg_action g,
                  res_params = bind_params (extractParamKeys (reg_path g))
                     (the (captured E g p))\<rparr>)"
  by (induction regs) (auto simp add: mk_route_def split: option.splits)

lemma method_names_not_inherited:
  "m \<in> set [''GET'', ''POST'', ''PUT'', ''DELETE'', ''PATCH''] \<Longrightarrow>
     \<not> truthy (Object_prototype obj m)"
  by (auto simp add: Object_prototype_def Object_prototype_functions_def)

text \<open>A path whose source text the engine rejects cannot be registered: the call raises
  the engine's \<open>SyntaxError\<close>.\<close>

lemma register_SyntaxError:
  assumes "E (regex_source (reg_path g)) = Inl msg"
  shows "register E rt g = Inl (SyntaxError msg)"
  using assms
  by (cases "reg_verb g")
     (simp_all add: register_def get_def post_def put_def delete_def patch_def addRoute_def
        pathToRegex_def)

subsection \<open>Resolution\<close>

text \<open>
  Claim C1 as stated fails for a parameter named \<open>__proto__\<close>.  The route
  \<open>/x/:__proto__\<close> has one parameter of that name, its pattern accepts the path
  \<open>/x/5\<close> and captures \<open>5\<close>, and \<open>match\<close> returns the route with no parameter at
  all: the assignment \<open>params['__proto__'] = '5'\<close> creates no property.
\<close>

theorem match_leaves_proto_parameter_unbound:
  "extractParamKeys ''/x/:__proto__'' = [''__proto__'']
   \<and> captured plain_RegExp
        \<lparr>reg_verb = Get, reg_path = ''/x/:__proto__'', reg_controller = ''C'', reg_action = ''a''\<rparr>
        ''/x/5'' = Some [JStr ''5'']
   \<and> (case register_all plain_RegExp Router
            [\<lparr>reg_verb = Get, reg_path = ''/x/:__proto__'', reg_controller = ''C'',
              reg_action = ''a''\<rparr>] of
         Inl e \<Rightarrow> False
       | Inr rt \<Rightarrow>
           match rt ''GET'' ''/x/5''
             = Inr (Some \<lparr>res_controller = ''C'', res_action = ''a'', res_params = []\<rparr>))"
  by code_simp

text \<open>
  Claim C1, as the code has it.  Let the routes be registered by any sequence of calls of
  \<open>get\<close>, \<open>post\<close>, \<open>put\<close>, \<open>delete\<close> and \<open>patch\<close> on a new router, each with a
  path whose pattern the engine compiles (otherwise the call raises a \<open>SyntaxError\<close> and
  registers nothing).  Registration succeeds.  For every method and path, \<open>match\<close>
  looks at the registrations in their order and takes the first one made for that method
  whose compiled pattern accepts the path.  If there is none (in particular when nothing
  was registered for the method, or the method is not one of the five) the result is the
  not-found value \<open>null\<close>, except that a method which names a member that the routes
  object inherits (\<open>constructor\<close>, \<open>toString\<close> and the like, no method of HTTP)
  makes \<open>match\<close> raise a \<open>TypeError\<close>.  Otherwise the result names the controller and
  action of that registration, and its parameters are the capture groups of the match
  bound, by position, to the parameter names in the order of the pattern: group
  \<open>i + 1\<close> to the name at position \<open>i\<close>, where of a repeated name the last
  occurrence counts and the name \<open>__proto__\<close> is bound to nothing.  When the names are
  distinct, none is \<open>__proto__\<close> and none is an array index, the parameters are the
  names with their groups, in the order of the pattern.
\<close>

theorem match_first_registered:
  assumes "\<forall>g \<in> set regs. compiles E g"
  shows "\<exists>rt. register_all E Router regs = Inr rt \<and>
     (case find (\<lambda>g. verb_method (reg_verb g) = m \<and> captured E g p \<noteq> None) regs of
        None \<Rightarrow>
          match rt m p
            = (if truthy (Object_prototype (JObj []) m) then Inl TypeError else Inr None)
      | Some g \<Rightarrow>
          (\<exists>groups res. captured E g p = Some groups
             \<and> match rt m p = Inr (Some res)
             \<and> res_controller res = reg_controller g
             \<and> res_action res = reg_action g
             \<and> (\<forall>k. map_of (res_params res) k
                   = (if k = ''__proto__'' then None
                      else map_of (rev (zip (extractParamKeys (reg_path g))
                             (map (match_group groups)
                                [0 ..< length (extractParamKeys (reg_path g))]))) k))
             \<and> (distinct (extractParamKeys (reg_path g))
                  \<and> ''__proto__'' \<notin> set (extractParamKeys (reg_path g))
                  \<and> (\<forall>k \<in> set (extractParamKeys (reg_path g)). property_index k = None)
                \<longrightarrow> res_params res
                      = zip (extractParamKeys (reg_path g))
                          (map (match_group groups)
                             [0 ..< length (extractParamKeys (reg_path g))]))))"
proof -
  let ?five = "set [''GET'', ''POST'', ''PUT'', ''DELETE'', ''PATCH'']"
  let ?Q = "\<lambda>g. verb_method (reg_verb g) = m"
  let ?A = "\<lambda>g. ?Q g \<and> captured E g p \<noteq> None"
  from registered_routes [OF assms] obtain rt where rt: "register_all E Router regs = Inr rt"
    and l: "\<And>m. map_of (routes rt) m
          = (if m \<in> ?five
             then Some (map (mk_route E) (filter (\<lambda>g. verb_method (reg_verb g) = m) regs))
             else None)"
    by auto
  have own: "match rt m p = Inr (first_match (map (mk_route E) (filter ?Q regs)) p)"
    if "m \<in> ?five"
    using that by (simp only: match_def l) simp
  have other: "match rt m p
      = (if truthy (Object_prototype (JObj []) m) then Inl TypeError else Inr None)"
    if "m \<notin> ?five"
    using that by (simp only: match_def l) simp
  show ?thesis
  proof (cases "find ?A regs")
    case None
    have "match rt m p
        = (if truthy (Object_prototype (JObj []) m) then Inl TypeError else Inr None)"
    proof (cases "m \<in> ?five")
      case True
      have "first_match (map (mk_route E) (filter ?Q regs)) p = None"
        by (simp only: first_match_find [of E ?Q regs p] None) simp
      with own [OF True] method_names_not_inherited [OF True] show ?thesis
        by simp
    next
      case False
      then show ?thesis by (rule other)
    qed
    with rt None show ?thesis by auto
  next
    case (Some g)
    let ?ks = "extractParamKeys (reg_path g)"
    from Some have q: "verb_method (reg_verb g) = m" and "captured E g p \<noteq> None"
      by (auto simp add: find_Some_iff)
    then obtain groups where groups: "captured E g p = Some groups"
      by auto
    let ?vals = "map (match_group groups) [0 ..< length ?ks]"
    have five: "m \<in> ?five"
      using verb_method_five [of "reg_verb g"] q by simp
    define res where "res = \<lparr>res_controller = reg_controller g, res_action = reg_action g,
      res_params = bind_params ?ks groups\<rparr>"
    have "first_match (map (mk_route E) (filter ?Q regs)) p = Some res"
      by (simp only: first_match_find [of E ?Q regs p] Some res_def) (simp add: groups)
    with own [OF five] have r: "match rt m p = Inr (Some res)"
      by simp
    have b: "res_params res = bind_params ?ks groups"
      by (simp add: res_def)
    have "\<exists>groups res. captured E g p = Some groups
             \<and> match rt m p = Inr (Some res)
             \<and> res_controller res = reg_controller g
             \<and> res_action res = reg_action g
             \<and> (\<forall>k. map_of (res_params res) k
                   = (if k = ''__proto__'' then None
                      else map_of (rev (zip ?ks (map (match_group groups) [0 ..< length ?ks]))) k))
             \<and> (distinct ?ks \<and> ''__proto__'' \<notin> set ?ks
                  \<and> (\<forall>k \<in> set ?ks. property_index k = None)
                \<longrightarrow> res_params res = zip ?ks (map (match_group groups) [0 ..< length ?ks]))"
    proof (intro exI [of _ groups] exI [of _ res] conjI impI allI)
      show "captured E g p = Some groups" by (fact groups)
      show "match rt m p = Inr (Some res)" by (fact r)
      show "res_controller res = reg_controller g" by (simp add: res_def)
      show "res_action res = reg_action g" by (simp add: res_def)
      show "map_of (res_params res) k
          = (if k = ''__proto__'' then None else map_of (rev (zip ?ks ?vals)) k)" for k
        by (simp only: b bind_params_lookup)
      show "res_params res = zip ?ks ?vals"
        if "distinct ?ks \<and> ''__proto__'' \<notin> set ?ks \<and> (\<forall>k \<in> set ?ks. property_index k = None)"
        using that by (simp only: b) (rule bind_params_distinct, simp_all)
    qed
    with rt Some show ?thesis by auto
  qed
qed

theorem match_first_registered_witness:
  "\<exists>rt. register_all plain_RegExp Router setupRoutes = Inr rt
     \<and> match rt ''GET'' ''/api/v1/products/categories''
         = Inr (Some \<lparr>res_controller = ''ProductsController'', res_action = ''readCategories'',
                 res_params = []\<rparr>)
     \<and> match rt ''GET'' ''/api/v1/products/42''
         = Inr (Some \<lparr>res_controller = ''ProductsController'', res_action = ''read'',
                 res_params = [(''id'', JStr ''42'')]\<rparr>)
     \<and> match rt ''PATCH'' ''/api/v1/products/42'' = Inr None
     \<and> match rt ''OPTIONS'' ''/api/v1/products/42'' = Inr None
     \<and> match rt ''constructor'' ''/api/v1/products/42'' = Inl TypeError"
proof -
  let ?E = plain_RegExp
  let ?cat = "reg Get ''/products/categories'' ''ProductsController'' ''readCategories''"
  let ?read = "reg Get ''/products/:id'' ''ProductsController'' ''read''"
  have c: "\<forall>g \<in> set setupRoutes. compiles ?E g"
    by code_simp
  have f1: "find (\<lambda>g. verb_method (reg_verb g) = ''GET''
        \<and> captured ?E g ''/api/v1/products/categories'' \<noteq> None) setupRoutes
      = Some ?cat"
    by code_simp
  have f2: "find (\<lambda>g. verb_method (reg_verb g) = ''GET''
        \<and> captured ?E g ''/api/v1/products/42'' \<noteq> None) setupRoutes
      = Some ?read"
    by code_simp
  have f3: "find (\<lambda>g. verb_method (reg_verb g) = ''PATCH''
        \<and> captured ?E g ''/api/v1/products/42'' \<noteq> None) setupRoutes
      = None"
    by code_simp
  have f4: "find (\<lambda>g. verb_method (reg_verb g) = ''OPTIONS''
        \<and> captured ?E g ''/api/v1/products/42'' \<noteq> None) setupRoutes
      = None"
    by code_simp
  have f5: "find (\<lambda>g. verb_method (reg_verb g) = ''constructor''
        \<and> captured ?E g ''/api/v1/products/42'' \<noteq> None) setupRoutes
      = None"
    by code_simp
  have k1: "extractParamKeys (reg_path ?cat) = []"
    by code_simp
  have k2: "extractParamKeys (reg_path ?read) = [''id'']"
    by code_simp
  have g2: "captured ?E ?read ''/api/v1/products/42'' = Some [JStr ''42'']"
    by code_simp
  have i2: "property_index ''id'' = None"
    by (simp add: property_index_def array_index_def is_digit_def)
  have t: "\<not> truthy (Object_prototype (JObj []) ''PATCH'')"
     "\<not> truthy (Object_prototype (JObj []) ''OPTIONS'')"
     "truthy (Object_prototype (JObj []) ''constructor'')"
    by (simp_all add: Object_prototype_def Object_prototype_functions_def)
  from match_first_registered [OF c, of "''GET''" "''/api/v1/products/categories''"]
  obtain rt groups1 res1 where rt: "register_all ?E Router setupRoutes = Inr rt"
    and r1: "match rt ''GET'' ''/api/v1/products/categories'' = Inr (Some res1)"
      "res_controller res1 = reg_controller ?cat" "res_action res1 = reg_action ?cat"
      "distinct (extractParamKeys (reg_path ?cat))
         \<and> ''__proto__'' \<notin> set (extractParamKeys (reg_path ?cat))
         \<and> (\<forall>k \<in> set (extractParamKeys (reg_path ?cat)). property_index k = None)
       \<longrightarrow> res_params res1
             = zip (extractParamKeys (reg_path ?cat))
                 (map (match_group groups1) [0 ..< length (extractParamKeys (reg_path ?cat))])"
    unfolding f1 option.case by blast
  from match_first_registered [OF c, of "''GET''" "''/api/v1/products/42''"]
  obtain rt2 groups2 res2 where rt2: "register_all ?E Router setupRoutes = Inr rt2"
    and r2: "captured ?E ?read ''/api/v1/products/42'' = Some groups2"
      "match rt2 ''GET'' ''/api/v1/products/42'' = Inr (Some res2)"
      "res_controller res2 = reg_controller ?read" "res_action res2 = reg_action ?read"
      "distinct (extractParamKeys (reg_path ?read))
         \<and> ''__proto__'' \<notin> set (extractParamKeys (reg_path ?read))
         \<and> (\<forall>k \<in> set (extractParamKeys (reg_path ?read)). property_index k = None)
       \<longrightarrow> res_params res2
             = zip (extractParamKeys (reg_path ?read))
                 (map (match_group groups2) [0 ..< length (extractParamKeys (reg_path ?read))])"
    unfolding f2 option.case by blast
  from match_first_registered [OF c, of "''PATCH''" "''/api/v1/products/42''"]
  obtain rt3 where rt3: "register_all ?E Router setupRoutes = Inr rt3"
    and r3: "match rt3 ''PATCH'' ''/api/v1/products/42'' = Inr None"
    unfolding f3 option.case using t(1) by auto
  from match_first_registered [OF c, of "''OPTIONS''" "''/api/v1/products/42''"]
  obtain rt4 where rt4: "register_all ?E Router setupRoutes = Inr rt4"
    and r4: "match rt4 ''OPTIONS'' ''/api/v1/products/42'' = Inr None"
    unfolding f4 option.case using t(2) by auto
  from match_first_registered [OF c, of "''constructor''" "''/api/v1/products/42''"]
  obtain rt5 where rt5: "register_all ?E Router setupRoutes = Inr rt5"
    and r5: "match rt5 ''constructor'' ''/api/v1/products/42'' = Inl TypeError"
    unfolding f5 option.case using t(3) by auto
  have same: "rt2 = rt" "rt3 = rt" "rt4 = rt" "rt5 = rt"
    using rt rt2 rt3 rt4 rt5 by simp_all
  have p1: "res_params res1 = []"
    using r1(4) by (simp add: k1)
  have e1: "res1 = \<lparr>res_controller = ''ProductsController'', res_action = ''readCategories'',
                 res_params = []\<rparr>"
    using r1(2,3) p1 by (cases res1) (simp add: reg_def)
  have "groups2 = [JStr ''42'']"
    using r2(1) by (simp add: g2)
  then have p2: "res_params res2 = [(''id'', JStr ''42'')]"
    using r2(5) by (simp add: k2 i2 match_group_def)
  have e2: "res2 = \<lparr>res_controller = ''ProductsController'', res_action = ''read'',
                 res_params = [(''id'', JStr ''42'')]\<rparr>"
    using r2(3,4) p2 by (cases res2) (simp add: reg_def)
  show ?thesis
    using rt r1(1) r2(2) r3 r4 r5 unfolding same e1 e2 by (intro exI [of _ rt]) simp
qed

section \<open>Properties of the dispatcher\<close>

lemma classified_constructors:
  "classified (AuthenticationException msg vars)"
  "classified (MethodNotAllowedException msg vars)"
  "classified (MethodNotFoundException msg vars)"
  "classified (MissingParametersException msg vars)"
  "classified (NotFoundException msg vars)"
  "classified (ValidationException msg vars)"
  by (simp_all add: AuthenticationException_def MethodNotAllowedException_def
      MethodNotFoundException_def MissingParametersException_def NotFoundException_def
      ValidationException_def new_ApiException_def classified_kinds_def)

lemma classified_code:
  "classified (ApiException name code m) \<Longrightarrow> code \<in> set [401, 400, 422, 404, 405]"
  by (auto simp add: classified_kinds_def)

lemma handle_error_api:
  assumes "written resp = None" and "100 \<le> code" and "code \<le> 999"
  shows "handle_error dev te resp (ApiException name code m)
     = Inr ((setHeader (status resp code) ''Content-Type'' ''application/json'')
              \<lparr>written := Some (envelope dev name code m)\<rparr>)"
  using assms
  by (simp add: handle_error_def json_def send_def setHeader_def status_def envelope_def)

lemma handle_error_other:
  assumes "written resp = None" and "\<not> is_ApiException e"
  shows "handle_error dev te resp e
     = Inr ((setHeader (status resp 500) ''Content-Type'' ''application/json'')
              \<lparr>written := Some (envelope dev ''Internal Server Error'' 500 (message_of te e))\<rparr>)"
  using assms
  by (cases e)
     (simp_all add: handle_error_def json_def send_def setHeader_def status_def envelope_def)

lemma handleRequest_raised:
  assumes "(parsed = Rejected e \<and> resp = Response)
     \<or> (\<exists>rq. parsed = Resolved rq \<and> match rt method pathname = Inl e \<and> resp = Response)
     \<or> (\<exists>rq route act. parsed = Resolved rq \<and> match rt method pathname = Inr (Some route)
           \<and> actions (res_controller route) (res_action route) = Some act
           \<and> act (rq\<lparr>rq_params := res_params route\<rparr>) Response = (Inl e, resp))"
  shows "handleRequest dev te rt actions parsed method pathname = handle_error dev te resp e"
  using assms by (auto simp add: handleRequest_def)

text \<open>
  The errors that reach the \<open>catch\<close> block are mapped as claim C5 says.  Let
  \<open>parseBody\<close> reject with an error, or \<open>match\<close> or the controller action raise
  one, before anything was written to the client.  Then the dispatcher answers with a
  JSON envelope.  For an error of a classified kind the status, of the response and in the envelope, is
  the kind's own code, one of 401, 400, 422, 404 and 405; for an error that is no
  \<open>ApiException\<close> it is 500 and the name is \<open>Internal Server Error\<close>.  The envelope
  holds the error's message in development mode and no message field otherwise.
\<close>

theorem dispatcher_error_envelope:
  assumes "(parsed = Rejected e \<and> resp = Response)
     \<or> (\<exists>rq. parsed = Resolved rq \<and> match rt method pathname = Inl e \<and> resp = Response)
     \<or> (\<exists>rq route act. parsed = Resolved rq \<and> match rt method pathname = Inr (Some route)
           \<and> actions (res_controller route) (res_action route) = Some act
           \<and> act (rq\<lparr>rq_params := res_params route\<rparr>) Response = (Inl e, resp))"
    and "written resp = None"
  shows "(\<forall>name code m. e = ApiException name code m \<and> classified e \<longrightarrow>
            code \<in> set [401, 400, 422, 404, 405]
            \<and> (\<exists>resp'. handleRequest dev te rt actions parsed method pathname = Inr resp'
                  \<and> statusCode resp' = code
                  \<and> written resp'
                      = Some (JObj ([(''error'', JStr name), (''status'', JNum code)]
                                    @ (if dev then [(''message'', JStr m)] else [])))))
     \<and> (\<not> is_ApiException e \<longrightarrow>
            (\<exists>resp'. handleRequest dev te rt actions parsed method pathname = Inr resp'
                  \<and> statusCode resp' = 500
                  \<and> written resp'
                      = Some (JObj ([(''error'', JStr ''Internal Server Error''),
                                     (''status'', JNum 500)]
                                    @ (if dev then [(''message'', JStr (message_of te e))]
                                       else [])))))"
proof (intro conjI allI impI)
  fix name code m
  assume a: "e = ApiException name code m \<and> classified e"
  then have c: "code \<in> set [401, 400, 422, 404, 405]"
    using classified_code by blast
  then show "code \<in> set [401, 400, 422, 404, 405]" .
  from c have "100 \<le> code" "code \<le> 999" by auto
  from handle_error_api [OF assms(2) this]
  have "handle_error dev te resp e
     = Inr ((setHeader (status resp code) ''Content-Type'' ''application/json'')
              \<lparr>written := Some (envelope dev name code m)\<rparr>)"
    using a by simp
  then show "\<exists>resp'. handleRequest dev te rt actions parsed method pathname = Inr resp'
      \<and> statusCode resp' = code
      \<and> written resp' = Some (JObj ([(''error'', JStr name), (''status'', JNum code)]
                                    @ (if dev then [(''message'', JStr m)] else [])))"
    by (simp add: handleRequest_raised [OF assms(1)] setHeader_def status_def envelope_def)
next
  assume "\<not> is_ApiException e"
  from handle_error_other [OF assms(2) this]
  show "\<exists>resp'. handleRequest dev te rt actions parsed method pathname = Inr resp'
      \<and> statusCode resp' = 500
      \<and> written resp' = Some (JObj ([(''error'', JStr ''Internal Server Error''),
                                     (''status'', JNum 500)]
                                    @ (if dev then [(''message'', JStr (message_of te e))]
                                       else [])))"
    by (simp add: handleRequest_raised [OF assms(1)] setHeader_def status_def envelope_def)
qed

theorem dispatcher_error_envelope_witness:
  "(\<exists>resp'. handleRequest False ''engine text'' example_router example_actions
        (Resolved example_request) ''GET'' ''/api/v1/report/nope'' = Inr resp'
      \<and> statusCode resp' = 404
      \<and> written resp' = Some (JObj [(''error'', JStr ''NotFoundException''), (''status'', JNum 404)]))
   \<and> (\<exists>resp'. handleRequest True ''engine text'' example_router example_actions
        (Resolved example_request) ''GET'' ''/api/v1/report/nope'' = Inr resp'
      \<and> statusCode resp' = 404
      \<and> written resp' = Some (JObj [(''error'', JStr ''NotFoundException''), (''status'', JNum 404),
                                    (''message'', JStr ''Report not found'')]))
   \<and> (\<exists>resp'. handleRequest False ''engine text'' example_router example_actions
        (Resolved example_request) ''GET'' ''/api/v1/products'' = Inr resp'
      \<and> statusCode resp' = 500
      \<and> written resp' = Some (JObj [(''error'', JStr ''Internal Server Error''),
                                    (''status'', JNum 500)]))"
proof -
  let ?e = "NotFoundException (Some ''Report not found'') None"
  let ?p = "PlainError ''connect ECONNREFUSED''"
  have e: "?e = ApiException ''NotFoundException'' 404 ''Report not found''"
    by (simp add: NotFoundException_def new_ApiException_def final_message_def)
  have c: "classified ?e"
    by (rule classified_constructors)
  have m1: "match example_router ''GET'' ''/api/v1/report/nope''
      = Inr (Some \<lparr>res_controller = ''ReportController'', res_action = ''index'',
              res_params = [(''reportId'', JStr ''nope'')]\<rparr>)"
    by code_simp
  have m2: "match example_router ''GET'' ''/api/v1/products''
      = Inr (Some \<lparr>res_controller = ''ProductsController'', res_action = ''readAll'',
              res_params = []\<rparr>)"
    by code_simp
  have w: "written Response = None"
    by (simp add: Response_def)
  have r1: "(Resolved example_request = Rejected ?e \<and> Response = Response)
     \<or> (\<exists>rq. Resolved example_request = Resolved rq
           \<and> match example_router ''GET'' ''/api/v1/report/nope'' = Inl ?e \<and> Response = Response)
     \<or> (\<exists>rq route act. Resolved example_request = Resolved rq
           \<and> match example_router ''GET'' ''/api/v1/report/nope'' = Inr (Some route)
           \<and> example_actions (res_controller route) (res_action route) = Some act
           \<and> act (rq\<lparr>rq_params := res_params route\<rparr>) Response = (Inl ?e, Response))"
    by (simp add: m1 example_actions_def)
  have r2: "(Resolved example_request = Rejected ?p \<and> Response = Response)
     \<or> (\<exists>rq. Resolved example_request = Resolved rq
           \<and> match example_router ''GET'' ''/api/v1/products'' = Inl ?p \<and> Response = Response)
     \<or> (\<exists>rq route act. Resolved example_request = Resolved rq
           \<and> match example_router ''GET'' ''/api/v1/products'' = Inr (Some route)
           \<and> example_actions (res_controller route) (res_action route) = Some act
           \<and> act (rq\<lparr>rq_params := res_params route\<rparr>) Response = (Inl ?p, Response))"
    by (simp add: m2 example_actions_def)
  show ?thesis
    using dispatcher_error_envelope [OF r1 w, of False "''engine text''"]
      dispatcher_error_envelope [OF r1 w, of True "''engine text''"]
      dispatcher_error_envelope [OF r2 w, of False "''engine text''"]
      c
    by (simp add: e)
qed

subsection \<open>A malformed JSON body\<close>

lemma accumulate_small:
  "length (concat chunks) + length body \<le> 1024 * 1024 \<Longrightarrow>
     accumulate body chunks = Inr (body @ concat chunks)"
  by (induction chunks arbitrary: body) simp_all

lemma parseBody_malformed_json:
  assumes "rq_method rq \<noteq> ''GET''" and "rq_method rq \<noteq> ''DELETE''"
    and "js_includes contentType ''application/json''"
    and "length (concat chunks) \<le> 1024 * 1024" and "concat chunks \<noteq> []"
    and "json_parse ps (concat chunks) = None"
  shows "parseBody ps rq contentType chunks = Uncaught (ReferenceError ''error is not defined'')"
  using assms accumulate_small [of chunks "[]"]
  by (simp add: parseBody_def on_end_def)

text \<open>
  Claim C5, evaluated on the code.  A request with the content type
  \<open>application/json\<close> and the malformed body \<open>{\<close> makes \<open>JSON.parse\<close> raise; the
  \<open>catch\<close> block of the \<open>end\<close> listener then raises a \<open>ReferenceError\<close> of its own
  instead of rejecting, the error never reaches the dispatcher's \<open>catch\<close> block, and
  no envelope is written.  (The well-formed body \<open>{}\<close> is parsed.)
\<close>

theorem malformed_json_escapes_dispatcher:
  "parseBody example_parsers example_request ''application/json'' [''{'']
     = Uncaught (ReferenceError ''error is not defined'')
   \<and> handleRequest False ''engine text'' example_router example_actions
        (parseBody example_parsers example_request ''application/json'' [''{''])
        ''POST'' ''/api/v1/auth/login''
     = Inl (ReferenceError ''error is not defined'')
   \<and> parseBody example_parsers example_request ''application/json'' [''{}'']
     = Resolved (example_request\<lparr>rq_body := JObj []\<rparr>)"
proof -
  have i: "js_includes ''application/json'' ''application/json''"
    by simp
  have 1: "parseBody example_parsers example_request ''application/json'' [''{'']
     = Uncaught (ReferenceError ''error is not defined'')"
    by (rule parseBody_malformed_json)
       (simp_all add: example_request_def example_parsers_def)
  have 2: "parseBody example_parsers example_request ''application/json'' [''{}'']
     = Resolved (example_request\<lparr>rq_body := JObj []\<rparr>)"
    by (simp add: parseBody_def on_end_def example_request_def example_parsers_def)
  show ?thesis
    by (simp add: 1 2 handleRequest_def)
qed

section \<open>Properties of the controllers\<close>

subsection \<open>The report dispatch\<close>

lemma function_member_names:
  assumes "typeof (member ctl k) = ''function''"
  shows "k \<in> set (map fst (own_fields ctl) @ class_methods
                  @ ''hasOwnProperty'' # ''constructor'' # Object_prototype_functions)"
proof (cases "map_of (own_fields ctl) k")
  case (Some v)
  then have "(k, v) \<in> set (own_fields ctl)"
    by (rule map_of_SomeD)
  then have "k \<in> fst ` set (own_fields ctl)"
    by force
  then show ?thesis by simp
next
  case None
  show ?thesis
  proof (cases "k \<in> set class_methods")
    case True
    then show ?thesis by simp
  next
    case False
    with None assms have "typeof (Object_prototype (JObj (own_fields ctl)) k) = ''function''"
      by (simp add: member_def)
    then have "k = ''hasOwnProperty'' \<or> k = ''constructor'' \<or> k \<in> set Object_prototype_functions"
      by (simp add: Object_prototype_def split: if_splits)
    then show ?thesis by auto
  qed
qed

lemma member_names_clean:
  "list_all (\<lambda>k. sanitize (JStr k) = JStr k)
     (map fst (own_fields ctl) @ class_methods
        @ ''hasOwnProperty'' # ''constructor'' # Object_prototype_functions)"
  unfolding own_fields_def class_methods_def Object_prototype_functions_def
  by (simp add: js_trim_def replace_all_def is_space_def)

lemma function_member_clean:
  assumes "typeof (member ctl k) = ''function''"
  shows "sanitize (JStr k) = JStr k"
  using function_member_names [OF assms] member_names_clean [of ctl]
  by (simp only: list_all_iff)

lemma sanitize_JStr: "\<exists>s. sanitize (JStr rid) = JStr s"
  by simp

lemma index_of_string:
  assumes "map_of (rq_params (ctl_request ctl)) ''reportId'' = Some (JStr rid)"
    and "sanitize (JStr rid) = JStr s"
  shows "index P ctl =
     (if typeof (member ctl s) = ''function'' then Invokes s
      else Raises (NotFoundException (Some ''Report not found'') None))"
proof -
  have "getParam P (ctl_request ctl) ''reportId'' JNull = Inr (JStr s)"
    using assms by (simp add: getParam_def input_def js_get_def)
  then show ?thesis by (simp add: index_def)
qed

text \<open>
  Claim C9.  Let the path parameter \<open>reportId\<close> be a string.  Whenever the controller
  member of that name is a function, \<open>index\<close> invokes it; this holds for every method
  of the class chain, among them \<open>authenticate\<close>, \<open>deleteSession\<close> and the helper
  \<open>_getToken\<close>, and for the functions inherited from \<open>Object.prototype\<close>.  When
  \<open>index\<close> raises, the error is the not-found error with status 404 and the controller
  has no function-valued member of that name.
\<close>

theorem index_invokes_function_member:
  assumes "map_of (rq_params (ctl_request ctl)) ''reportId'' = Some (JStr rid)"
  shows "(typeof (member ctl rid) = ''function'' \<longrightarrow> index P ctl = Invokes rid)
     \<and> (\<forall>e. index P ctl = Raises e \<longrightarrow>
            e = ApiException ''NotFoundException'' 404 ''Report not found''
            \<and> typeof (member ctl rid) \<noteq> ''function'')
     \<and> typeof (member ctl ''authenticate'') = ''function''
     \<and> typeof (member ctl ''deleteSession'') = ''function''
     \<and> typeof (member ctl ''_getToken'') = ''function''
     \<and> typeof (member ctl ''toString'') = ''function''"
proof -
  obtain s where s: "sanitize (JStr rid) = JStr s"
    using sanitize_JStr by blast
  note i = index_of_string [OF assms s, of P]
  have same: "s = rid" if "typeof (member ctl rid) = ''function''"
    using function_member_clean [OF that] s by simp
  have 1: "index P ctl = Invokes rid" if "typeof (member ctl rid) = ''function''"
    using that same [OF that] by (simp add: i)
  have 2: "e = ApiException ''NotFoundException'' 404 ''Report not found''
      \<and> typeof (member ctl rid) \<noteq> ''function''" if "index P ctl = Raises e" for e
  proof
    from that have n: "typeof (member ctl s) \<noteq> ''function''"
      and e: "e = NotFoundException (Some ''Report not found'') None"
      by (auto simp add: i split: if_splits)
    from e show "e = ApiException ''NotFoundException'' 404 ''Report not found''"
      by (simp add: NotFoundException_def new_ApiException_def final_message_def)
    show "typeof (member ctl rid) \<noteq> ''function''"
    proof
      assume f: "typeof (member ctl rid) = ''function''"
      with same have "s = rid" by simp
      with n f show False by simp
    qed
  qed
  have 3: "typeof (member ctl ''authenticate'') = ''function''"
    "typeof (member ctl ''deleteSession'') = ''function''"
    "typeof (member ctl ''_getToken'') = ''function''"
    "typeof (member ctl ''toString'') = ''function''"
    by (simp_all add: member_def own_fields_def class_methods_def Object_prototype_def
        Object_prototype_functions_def)
  from 1 2 3 show ?thesis by blast
qed

theorem index_invokes_function_member_witness:
  "index Object_prototype example_controller = Invokes ''authenticate''
   \<and> index Object_prototype
        (example_controller\<lparr>ctl_request := example_request\<lparr>rq_params := [(''reportId'', JStr ''sessionTimeout'')]\<rparr>\<rparr>)
       = Raises (ApiException ''NotFoundException'' 404 ''Report not found'')"
proof -
  have p: "map_of (rq_params (ctl_request example_controller)) ''reportId''
      = Some (JStr ''authenticate'')"
    by (simp add: example_controller_def new_controller_def)
  have 1: "index Object_prototype example_controller = Invokes ''authenticate''"
    using index_invokes_function_member [OF p, of Object_prototype] by blast
  have 2: "index Object_prototype
        (example_controller\<lparr>ctl_request := example_request\<lparr>rq_params := [(''reportId'', JStr ''sessionTimeout'')]\<rparr>\<rparr>)
       = Raises (ApiException ''NotFoundException'' 404 ''Report not found'')"
    by code_simp
  from 1 2 show ?thesis by simp
qed

subsection \<open>Creating a session\<close>

lemma member_sessionTimout: "member ctl ''sessionTimout'' = JUndefined"
  by (simp add: member_def own_fields_def class_methods_def Object_prototype_def
      Object_prototype_functions_def)

lemma getSessionExpiration_text:
  "getSessionExpiration rtm ctl = dateParse rtm ''function now() { [native code] }undefined''"
  by (simp add: getSessionExpiration_def member_sessionTimout js_plus_def Date_now_def
      new_Date_def)

lemma show_fortnight: "show_int 1209600000 = ''1209600000''"
  by (simp add: show_int_def show_nat.simps)

lemma example_token: "generateToken example_runtime = ''Zm9v-YmFy_cQ==''"
  by code_simp

lemma example_token_unflagged: "\<not> detectSqlInjection (JStr ''Zm9v-YmFy_cQ=='')"
  by code_simp

text \<open>When the store reports no affected row, \<open>createSession\<close> raises the authentication
  error and leaves the response as it was.\<close>

lemma createSession_not_persisted:
  assumes "AuthModel_createSession drv (ctl_db ctl) uid (generateToken rtm)
      (getSessionExpiration rtm (ctl\<lparr>token := JStr (generateToken rtm)\<rparr>)) = (Inr False, d')"
  shows "fst (createSession rtm drv ctl uid)
      = Inl (AuthenticationException (Some ''Unable to create user session.'') None)
     \<and> ctl_response (snd (createSession rtm drv ctl uid)) = ctl_response ctl"
  using assms by (simp add: createSession_def Let_def)

text \<open>
  Claim C4, evaluated on the code.  The expiration that \<open>createSession\<close> computes is
  what the date parser makes of the text \<open>function now() { [native code] }undefined\<close>,
  whatever the clock shows.  With the clock at 1700000000000 ms and a store that reports
  one affected row, \<open>createSession(7)\<close> binds an invalid date as the expiration of the
  session row, and sets the cookie with \<open>Max-Age=1209600000\<close>, the fortnight in
  milliseconds.
\<close>

theorem createSession_expiration_and_cookie:
  "getSessionExpiration rtm ctl = dateParse rtm ''function now() { [native code] }undefined''
   \<and> fst (createSession example_runtime storing_driver example_controller (JNum 7))
       = Inr (JObj [(''token'', JStr ''Zm9v-YmFy_cQ==''), (''userId'', JNum 7)])
   \<and> sent (ctl_db (snd (createSession example_runtime storing_driver example_controller (JNum 7))))
       = [(''INSERT IGNORE INTO sessions (user_id, token, expires_at) VALUES (?, ?, ?) ON DUPLICATE KEY UPDATE token = ?, expires_at = ?'',
           [PVal (JNum 7), PVal (JStr ''Zm9v-YmFy_cQ==''), PDate InvalidDate,
            PVal (JStr ''Zm9v-YmFy_cQ==''), PDate InvalidDate])]
   \<and> map_of (headers (ctl_response
         (snd (createSession example_runtime storing_driver example_controller (JNum 7)))))
         ''Set-Cookie''
       = Some ''simple_app_cookie=Zm9v-YmFy_cQ==; Max-Age=1209600000; Path=/; HttpOnly; Secure; SameSite=Lax''
   \<and> DateMs (clock example_runtime + 14 * 24 * 60 * 60 * 1000) = DateMs 1701209600000"
proof -
  have e: "getSessionExpiration example_runtime c = InvalidDate" for c
    by (simp add: getSessionExpiration_text example_runtime_def)
  have m: "AuthModel_createSession storing_driver (example_database\<lparr>connection := True\<rparr>)
        (JNum 7) ''Zm9v-YmFy_cQ=='' InvalidDate
      = (Inr True, example_database\<lparr>connection := True,
           sent := [(''INSERT IGNORE INTO sessions (user_id, token, expires_at) VALUES (?, ?, ?) ON DUPLICATE KEY UPDATE token = ?, expires_at = ?'',
             [PVal (JNum 7), PVal (JStr ''Zm9v-YmFy_cQ==''), PDate InvalidDate,
              PVal (JStr ''Zm9v-YmFy_cQ==''), PDate InvalidDate])]\<rparr>)"
    by (simp add: AuthModel_createSession_def execute_def query_def example_token_unflagged
        storing_driver_def affected_def example_database_def)
  have c: "createSession example_runtime storing_driver example_controller (JNum 7)
      = (Inr (JObj [(''token'', JStr ''Zm9v-YmFy_cQ==''), (''userId'', JNum 7)]),
         example_controller\<lparr>token := JStr ''Zm9v-YmFy_cQ=='',
           ctl_db := example_database\<lparr>connection := True,
             sent := [(''INSERT IGNORE INTO sessions (user_id, token, expires_at) VALUES (?, ?, ?) ON DUPLICATE KEY UPDATE token = ?, expires_at = ?'',
               [PVal (JNum 7), PVal (JStr ''Zm9v-YmFy_cQ==''), PDate InvalidDate,
                PVal (JStr ''Zm9v-YmFy_cQ==''), PDate InvalidDate])]\<rparr>,
           userId := JNum 7, token := JStr ''Zm9v-YmFy_cQ=='',
           ctl_response := cookie Response ''simple_app_cookie'' ''Zm9v-YmFy_cQ==''
              [(''maxAge'', JNum 1209600000), (''secure'', JBool True),
               (''sameSite'', JStr ''Lax'')]\<rparr>)"
    by (simp add: createSession_def Let_def example_token e example_controller_def
        new_controller_def m)
  have h: "map_of (headers (cookie Response ''simple_app_cookie'' ''Zm9v-YmFy_cQ==''
              [(''maxAge'', JNum 1209600000), (''secure'', JBool True),
               (''sameSite'', JStr ''Lax'')])) ''Set-Cookie''
      = Some ''simple_app_cookie=Zm9v-YmFy_cQ==; Max-Age=1209600000; Path=/; HttpOnly; Secure; SameSite=Lax''"
    by (simp add: cookie_def Response_def option_of_def append_if_def setHeader_def
        show_fortnight)
  have d: "clock example_runtime = 1700000000000"
    by (simp add: example_runtime_def)
  show ?thesis
    by (simp add: getSessionExpiration_text c h d)
qed

end
